theory Spec2Isabelle
  imports Complex_Main "HOL-Library.Word"
begin

section \<open>Values: strings and numbers\<close>

text \<open>
  A JavaScript string is a sequence of UTF-16 code units, so it is modelled as a list of
  16-bit words. \<open>js_of\<close> writes an ASCII literal of the source as such a list.

  The numeric fields of a segment hold finite doubles; they are modelled as real numbers,
  without the rounding and the overflow of IEEE arithmetic. Where a claim is about a
  result being \<open>NaN\<close> or infinite, the engine is stated a second time over doubles with
  their range (the definitions with the suffix \<open>_d\<close>). \<open>NaN\<close> is
  modelled where the program itself can produce it from finite data: in the result of
  parsing a time string, and from there in \<open>customDurationMins\<close>. The numeric inputs of
  the table go through \<open>parseFloat(...) || 0\<close>, which turns \<open>NaN\<close> into 0. Every division
  of the engine has a divisor that is a non-zero constant or is guarded by a \<open>> 0\<close> test
  in the source, so no division by zero is ever evaluated.
\<close>

type_synonym jsstring = "16 word list"

definition js_of :: "string \<Rightarrow> jsstring" where
  "js_of s = map (\<lambda>c. of_nat (of_char c)) s"

datatype jsnum = NaN | Val real

fun js_add :: "jsnum \<Rightarrow> jsnum \<Rightarrow> jsnum" where
  "js_add (Val a) (Val b) = Val (a + b)"
| "js_add _ _ = NaN"

fun js_sub :: "jsnum \<Rightarrow> jsnum \<Rightarrow> jsnum" where
  "js_sub (Val a) (Val b) = Val (a - b)"
| "js_sub _ _ = NaN"

fun js_mul :: "jsnum \<Rightarrow> jsnum \<Rightarrow> jsnum" where
  "js_mul (Val a) (Val b) = Val (a * b)"
| "js_mul _ _ = NaN"

text \<open>Comparisons with \<open>NaN\<close> are false.\<close>

fun js_lt :: "jsnum \<Rightarrow> jsnum \<Rightarrow> bool" where
  "js_lt (Val a) (Val b) = (a < b)"
| "js_lt _ _ = False"

fun js_le :: "jsnum \<Rightarrow> jsnum \<Rightarrow> bool" where
  "js_le (Val a) (Val b) = (a \<le> b)"
| "js_le _ _ = False"

section \<open>Time utilities\<close>

subsection \<open>Number to string\<close>

definition digit_char :: "nat \<Rightarrow> 16 word" where
  "digit_char d = of_nat (48 + d)"

text \<open>\<open>toString\<close> of an integral number, in decimal.\<close>

fun nat_toString :: "nat \<Rightarrow> jsstring" where
  "nat_toString n =
     (if n < 10 then [digit_char n] else nat_toString (n div 10) @ [digit_char (n mod 10)])"

declare nat_toString.simps [simp del]

definition int_toString :: "int \<Rightarrow> jsstring" where
  "int_toString i =
     (if i < 0 then js_of ''-'' @ nat_toString (nat (- i)) else nat_toString (nat i))"

text \<open>\<open>s.padStart(2, '0')\<close>: a string of length 2 or more is returned as it is.\<close>

definition padStart2 :: "jsstring \<Rightarrow> jsstring" where
  "padStart2 s = replicate (2 - length s) (digit_char 0) @ s"

text \<open>
  The \<open>%\<close> of JavaScript on integral operands truncates: the result has the sign of the
  dividend. It is used with the divisors 24 and 60 only.
\<close>

definition js_rem :: "int \<Rightarrow> int \<Rightarrow> int" where
  "js_rem a b = sgn a * (\<bar>a\<bar> mod \<bar>b\<bar>)"

text \<open>\<open>Math.round\<close> rounds to the nearest integer, a tie towards plus infinity.\<close>

definition Math_round :: "real \<Rightarrow> int" where
  "Math_round x = \<lfloor>x + 1 / 2\<rfloor>"

definition formatTime :: "jsnum \<Rightarrow> jsstring" where
  "formatTime totalMinutes =
     (case totalMinutes of
        NaN \<Rightarrow> js_of ''NaN:NaN''
      | Val x \<Rightarrow>
          (let mins = Math_round x;
               hours = js_rem (mins div 60) 24;
               mins' = js_rem mins 60
           in padStart2 (int_toString hours) @ js_of '':'' @ padStart2 (int_toString mins')))"

subsection \<open>String to number\<close>

text \<open>\<open>timeStr.split(':')\<close>: always at least one part.\<close>

fun split_on :: "16 word \<Rightarrow> jsstring \<Rightarrow> jsstring list" where
  "split_on sep [] = [[]]"
| "split_on sep (c # cs) =
     (if c = sep then [] # split_on sep cs
      else (case split_on sep cs of
              p # ps \<Rightarrow> (c # p) # ps
            | [] \<Rightarrow> [[c]]))"

definition is_digit :: "16 word \<Rightarrow> bool" where
  "is_digit c = (48 \<le> unat c \<and> unat c \<le> 57)"

definition digit_val :: "16 word \<Rightarrow> nat" where
  "digit_val c = unat c - 48"

definition parse_digits :: "jsstring \<Rightarrow> nat" where
  "parse_digits cs = foldl (\<lambda>a c. 10 * a + digit_val c) 0 cs"

text \<open>
  \<open>Number(s)\<close> on the strings a time can be made of: the empty string is 0, an optionally
  signed run of decimal digits is that integer. The other numeric literals of JavaScript
  (surrounding white space, a fraction, an exponent, a radix prefix, \<open>Infinity\<close>) occur
  neither in the value of a time input nor in the output of \<open>formatTime\<close>; the model
  gives \<open>NaN\<close> for them, as for every string that is no number.
\<close>

definition js_Number :: "jsstring \<Rightarrow> jsnum" where
  "js_Number s =
     (case s of
        [] \<Rightarrow> Val 0
      | c # cs \<Rightarrow>
          if c = 45 \<and> cs \<noteq> [] \<and> list_all is_digit cs then Val (- real (parse_digits cs))
          else if c = 43 \<and> cs \<noteq> [] \<and> list_all is_digit cs then Val (real (parse_digits cs))
          else if list_all is_digit s then Val (real (parse_digits s))
          else NaN)"

text \<open>
  \<open>const [hours, minutes] = timeStr.split(':').map(Number)\<close>: with a single part
  \<open>minutes\<close> is \<open>undefined\<close> and the sum is \<open>NaN\<close>; parts after the second are ignored.
\<close>

definition parseTime :: "jsstring \<Rightarrow> jsnum" where
  "parseTime timeStr =
     (case map js_Number (split_on 58 timeStr) of
        hours # minutes # _ \<Rightarrow> js_add (js_mul hours (Val 60)) minutes
      | _ \<Rightarrow> NaN)"

definition addMinutes :: "jsstring \<Rightarrow> real \<Rightarrow> jsstring" where
  "addMinutes timeStr minutesToAdd =
     (let currentMinutes = parseTime timeStr
      in formatTime (js_add currentMinutes (Val minutesToAdd)))"

section \<open>Effort points\<close>

definition calculateEP :: "real \<Rightarrow> real \<Rightarrow> real" where
  "calculateEP distanceKm elevM = distanceKm + elevM / 100"

section \<open>Segments\<close>

text \<open>
  The field \<open>id\<close> of the source is \<open>seg_id\<close> here. An absent \<open>customDurationMins\<close>
  (\<open>undefined\<close>) is \<open>None\<close>. The record leaves open the type \<open>'n\<close> of the numeric fields
  and the type \<open>'c\<close> of a custom duration: \<open>Segment\<close> has real numbers, and a custom
  duration that may be \<open>NaN\<close>.
\<close>

record ('n, 'c) Segment_of =
  seg_id :: jsstring
  name :: jsstring
  description :: jsstring
  splitDistKm :: 'n
  splitElevM :: 'n
  targetEPH :: 'n
  customDurationMins :: "'c option"
  ep :: 'n
  targetTimeHours :: 'n
  targetTimeMins :: 'n
  startTime :: jsstring
  endTime :: jsstring
  totalDistKm :: 'n
  accuElevM :: 'n
  accuTimeHours :: 'n
  accuEPH :: 'n

type_synonym Segment = "(real, jsnum) Segment_of"

section \<open>The recalculation engine\<close>

text \<open>The four variables that the callback of \<open>map\<close> updates from one segment to the next.\<close>

record 'n running_of =
  runningDist :: 'n
  runningElev :: 'n
  runningTimeHours :: 'n
  currentClockTime :: jsstring

type_synonym running = "real running_of"

text \<open>
  The branch \<open>MODE: Fixed Intensity\<close>: the divisor \<open>safeEPH\<close> and the pair
  \<open>(targetTimeHours, targetTimeMins)\<close>.
\<close>

definition safeEPH :: "Segment \<Rightarrow> real" where
  "safeEPH seg = (if targetEPH seg > 0 then targetEPH seg else 1)"

definition fixedIntensity :: "real \<Rightarrow> Segment \<Rightarrow> real \<times> real" where
  "fixedIntensity ep' seg =
     (let targetTimeHours' = ep' / safeEPH seg
      in (targetTimeHours', targetTimeHours' * 60))"

text \<open>
  The block \<open>Calculate Duration & EPH based on mode\<close>: the pair
  \<open>(targetTimeHours, targetTimeMins)\<close> it leaves. The test
  \<open>seg.customDurationMins !== undefined && seg.customDurationMins > 0\<close> fails on
  \<open>undefined\<close>, on \<open>NaN\<close> and on a number that is not positive.
\<close>

definition legDuration :: "nat \<Rightarrow> Segment \<Rightarrow> real \<Rightarrow> real \<times> real" where
  "legDuration index seg ep' =
     (if index = 0 then (0, 0)
      else (case customDurationMins seg of
              Some (Val d) \<Rightarrow> if d > 0 then (d / 60, d) else fixedIntensity ep' seg
            | _ \<Rightarrow> fixedIntensity ep' seg))"

text \<open>
  The body of the callback at one segment: the new segment and the updated variables.
  \<open>effectiveEPH\<close> is \<open>seg.targetEPH\<close> on every branch.
\<close>

definition recalc_callback :: "jsstring \<Rightarrow> running \<Rightarrow> Segment \<Rightarrow> nat \<Rightarrow> Segment \<times> running" where
  "recalc_callback globalStart r seg index =
     (let ep' = calculateEP (splitDistKm seg) (splitElevM seg);
          effectiveEPH = targetEPH seg;
          (targetTimeHours', targetTimeMins') = legDuration index seg ep';
          runningDist' = runningDist r + splitDistKm seg;
          runningElev' = runningElev r + splitElevM seg;
          runningTimeHours' = runningTimeHours r + targetTimeHours';
          segStartTime = (if index = 0 then globalStart else currentClockTime r);
          segEndTime = addMinutes segStartTime targetTimeMins';
          accuEPH' = (if runningTimeHours' > 0
                      then (runningDist' + runningElev' / 100) / runningTimeHours' else 0)
      in (seg\<lparr>ep := ep',
              targetEPH := effectiveEPH,
              targetTimeHours := targetTimeHours',
              targetTimeMins := targetTimeMins',
              startTime := segStartTime,
              endTime := segEndTime,
              totalDistKm := runningDist',
              accuElevM := runningElev',
              accuTimeHours := runningTimeHours',
              accuEPH := (if index = 0 then 0 else accuEPH')\<rparr>,
          \<lparr>runningDist = runningDist',
           runningElev = runningElev',
           runningTimeHours = runningTimeHours',
           currentClockTime = segEndTime\<rparr>))"

text \<open>\<open>currentSegments.map((seg, index) => ...)\<close> from position \<open>index\<close> on.\<close>

fun recalc_map :: "jsstring \<Rightarrow> running \<Rightarrow> nat \<Rightarrow> Segment list \<Rightarrow> Segment list" where
  "recalc_map globalStart r index [] = []"
| "recalc_map globalStart r index (seg # rest) =
     (case recalc_callback globalStart r seg index of
        (seg', r') \<Rightarrow> seg' # recalc_map globalStart r' (Suc index) rest)"

definition recalculateSegments :: "Segment list \<Rightarrow> jsstring \<Rightarrow> Segment list" where
  "recalculateSegments currentSegments globalStart =
     recalc_map globalStart
       \<lparr>runningDist = 0, runningElev = 0, runningTimeHours = 0,
        currentClockTime = globalStart\<rparr> 0 currentSegments"

section \<open>The editor\<close>

text \<open>
  The state of the editor component: the values of its three \<open>useState\<close> hooks. A read
  of a property of \<open>undefined\<close> throws a \<open>TypeError\<close>.
\<close>

record editor =
  st_name :: jsstring
  st_startTime :: jsstring
  st_segments :: "Segment list"

datatype error = TypeError

definition DEFAULT_START_TIME :: jsstring where
  "DEFAULT_START_TIME = js_of ''07:00''"

text \<open>\<open>generateId()\<close> is random: its result is the first argument here.\<close>

definition createEmptySegment :: "jsstring \<Rightarrow> jsstring \<Rightarrow> jsstring \<Rightarrow> Segment" where
  "createEmptySegment newId name' description' =
     \<lparr>seg_id = newId,
      name = name',
      description = description',
      splitDistKm = 0,
      splitElevM = 0,
      targetEPH = 10,
      customDurationMins = None,
      ep = 0,
      targetTimeHours = 0,
      targetTimeMins = 0,
      startTime = DEFAULT_START_TIME,
      endTime = DEFAULT_START_TIME,
      totalDistKm = 0,
      accuElevM = 0,
      accuTimeHours = 0,
      accuEPH = 0\<rparr>"

subsection \<open>Editing an end time\<close>

text \<open>
  At position 0 the handler only calls \<open>setStartTime\<close>; the segments are recalculated
  afterwards by the effect that depends on the start time.
\<close>

definition handleEndTimeChange :: "editor \<Rightarrow> nat \<Rightarrow> jsstring \<Rightarrow> error + editor" where
  "handleEndTimeChange st index newEndTime =
     (if index = 0 then Inr (st\<lparr>st_startTime := newEndTime\<rparr>)
      else if length (st_segments st) \<le> index then Inl TypeError
      else
        (let segment = st_segments st ! index;
             startMins = parseTime (startTime segment);
             endMins = parseTime newEndTime;
             endMins' = (if js_lt endMins startMins then js_add endMins (Val (24 * 60))
                         else endMins);
             durationMins = js_sub endMins' startMins;
             durationMins' = (if js_le durationMins (Val 0) then Val 1 else durationMins);
             updated = (st_segments st)[index := segment\<lparr>customDurationMins := Some durationMins'\<rparr>]
         in Inr (st\<lparr>st_segments := recalculateSegments updated (st_startTime st)\<rparr>)))"

subsection \<open>Appending a row\<close>

text \<open>
  \<open>s.charCodeAt(0)\<close> is \<open>NaN\<close> on the empty string. \<open>String.fromCharCode(x)\<close> is the
  string of the single code unit \<open>ToUint16(x)\<close>: 0 for \<open>NaN\<close>, else the integral part of
  \<open>x\<close> modulo \<open>2 ^ 16\<close>.
\<close>

definition charCodeAt0 :: "jsstring \<Rightarrow> jsnum" where
  "charCodeAt0 s = (case s of [] \<Rightarrow> NaN | c # _ \<Rightarrow> Val (real (unat c)))"

definition fromCharCode :: "jsnum \<Rightarrow> jsstring" where
  "fromCharCode x =
     (case x of
        NaN \<Rightarrow> [0]
      | Val v \<Rightarrow> [word_of_int (if v < 0 then \<lceil>v\<rceil> else \<lfloor>v\<rfloor>)])"

definition addRow :: "jsstring \<Rightarrow> editor \<Rightarrow> error + editor" where
  "addRow newId st =
     (case st_segments st of
        [] \<Rightarrow> Inl TypeError
      | _ # _ \<Rightarrow>
          (let lastChar = name (last (st_segments st));
               nextChar = fromCharCode (js_add (charCodeAt0 lastChar) (Val 1));
               newName = (if length nextChar > 1 then js_of ''X'' else nextChar);
               newSeg = createEmptySegment newId newName (lastChar @ js_of '' To '' @ newName)
           in Inr (st\<lparr>st_segments :=
                        recalculateSegments (st_segments st @ [newSeg]) (st_startTime st)\<rparr>)))"

subsection \<open>Saving\<close>

text \<open>The fields \<open>id\<close>, \<open>name\<close> and \<open>segments\<close> of a session carry the prefix \<open>session_\<close>.\<close>

record TrainingSession =
  session_id :: jsstring
  session_name :: jsstring
  date :: jsstring
  globalStartTime :: jsstring
  session_segments :: "Segment list"
  totalDistance :: real
  totalElevation :: real
  totalEP :: real
  totalDurationHours :: real

text \<open>
  \<open>initialSession?.id || generateId()\<close>: the stored value unless it is missing or the
  empty string. The results of \<open>generateId()\<close> and of \<open>new Date().toISOString()\<close> are
  arguments.
\<close>

definition or_else :: "jsstring option \<Rightarrow> jsstring \<Rightarrow> jsstring" where
  "or_else v d = (case v of None \<Rightarrow> d | Some s \<Rightarrow> if s = [] then d else s)"

definition handleSave ::
  "TrainingSession option \<Rightarrow> jsstring \<Rightarrow> jsstring \<Rightarrow> editor \<Rightarrow> error + TrainingSession" where
  "handleSave initialSession newId now st =
     (case st_segments st of
        [] \<Rightarrow> Inl TypeError
      | _ # _ \<Rightarrow>
          (let lastSeg = last (st_segments st)
           in Inr \<lparr>session_id = or_else (map_option session_id initialSession) newId,
                   session_name = st_name st,
                   date = or_else (map_option date initialSession) now,
                   globalStartTime = st_startTime st,
                   session_segments = st_segments st,
                   totalDistance = totalDistKm lastSeg,
                   totalElevation = accuElevM lastSeg,
                   totalEP = foldl (\<lambda>acc s. acc + ep s) 0 (st_segments st),
                   totalDurationHours = accuTimeHours lastSeg\<rparr>))"

section \<open>Doubles with their range\<close>

text \<open>
  Whether a result is \<open>NaN\<close> or infinite depends on the range of doubles, which the real
  numbers above do not have. \<open>double\<close> has \<open>NaN\<close>, the two infinities and the finite
  values. An arithmetic result whose magnitude reaches \<open>2 ^ 1024 - 2 ^ 970\<close> (the largest
  double plus half a unit in its last place) is an infinity, as round-to-nearest gives
  it; a result within the range is kept exact, so the rounding to 53 bits is not
  modelled. The sign of a zero is not modelled either: a division by zero takes the zero
  as positive (the engine never divides by zero).
\<close>

datatype double = DNaN | PInf | NInf | Fin real

definition overflow_bound :: real where
  "overflow_bound = 2 ^ 1024 - 2 ^ 970"

definition in_range :: "real \<Rightarrow> bool" where
  "in_range x = (- overflow_bound < x \<and> x < overflow_bound)"

definition rnd :: "real \<Rightarrow> double" where
  "rnd x = (if overflow_bound \<le> x then PInf else if x \<le> - overflow_bound then NInf else Fin x)"

text \<open>\<open>+\<close>, \<open>*\<close>, \<open>/\<close> and \<open>>\<close> of JavaScript on these values.\<close>

fun d_add :: "double \<Rightarrow> double \<Rightarrow> double" where
  "d_add DNaN _ = DNaN"
| "d_add _ DNaN = DNaN"
| "d_add (Fin a) (Fin b) = rnd (a + b)"
| "d_add PInf NInf = DNaN"
| "d_add NInf PInf = DNaN"
| "d_add PInf _ = PInf"
| "d_add _ PInf = PInf"
| "d_add NInf _ = NInf"
| "d_add _ NInf = NInf"

fun d_mul :: "double \<Rightarrow> double \<Rightarrow> double" where
  "d_mul DNaN _ = DNaN"
| "d_mul _ DNaN = DNaN"
| "d_mul (Fin a) (Fin b) = rnd (a * b)"
| "d_mul (Fin a) PInf = (if a = 0 then DNaN else if 0 < a then PInf else NInf)"
| "d_mul (Fin a) NInf = (if a = 0 then DNaN else if 0 < a then NInf else PInf)"
| "d_mul PInf (Fin b) = (if b = 0 then DNaN else if 0 < b then PInf else NInf)"
| "d_mul NInf (Fin b) = (if b = 0 then DNaN else if 0 < b then NInf else PInf)"
| "d_mul PInf PInf = PInf"
| "d_mul PInf NInf = NInf"
| "d_mul NInf PInf = NInf"
| "d_mul NInf NInf = PInf"

fun d_div :: "double \<Rightarrow> double \<Rightarrow> double" where
  "d_div DNaN _ = DNaN"
| "d_div _ DNaN = DNaN"
| "d_div (Fin a) (Fin b) =
     (if b = 0 then (if a = 0 then DNaN else if 0 < a then PInf else NInf) else rnd (a / b))"
| "d_div (Fin a) PInf = Fin 0"
| "d_div (Fin a) NInf = Fin 0"
| "d_div PInf (Fin b) = (if 0 \<le> b then PInf else NInf)"
| "d_div NInf (Fin b) = (if 0 \<le> b then NInf else PInf)"
| "d_div PInf PInf = DNaN"
| "d_div PInf NInf = DNaN"
| "d_div NInf PInf = DNaN"
| "d_div NInf NInf = DNaN"

fun d_gt :: "double \<Rightarrow> double \<Rightarrow> bool" where
  "d_gt DNaN _ = False"
| "d_gt _ DNaN = False"
| "d_gt (Fin a) (Fin b) = (b < a)"
| "d_gt PInf PInf = False"
| "d_gt PInf _ = True"
| "d_gt NInf _ = False"
| "d_gt (Fin a) PInf = False"
| "d_gt (Fin a) NInf = True"

text \<open>A value that an arithmetic operation can give: a finite one is within the range.\<close>

definition normal :: "double \<Rightarrow> bool" where
  "normal d = (case d of Fin a \<Rightarrow> in_range a | _ \<Rightarrow> True)"

subsection \<open>Time utilities over doubles\<close>

text \<open>
  \<open>parseTime\<close> and \<open>addMinutes\<close> with the arithmetic of doubles. \<open>formatTime\<close> of an
  infinity is \<open>NaN:NaN\<close>, as of \<open>NaN\<close>: \<open>Math.round\<close> and \<open>Math.floor\<close> keep the infinity,
  and its remainder by 24 or by 60 is \<open>NaN\<close>.
\<close>

definition of_jsnum :: "jsnum \<Rightarrow> double" where
  "of_jsnum x = (case x of NaN \<Rightarrow> DNaN | Val v \<Rightarrow> rnd v)"

definition parseTime_d :: "jsstring \<Rightarrow> double" where
  "parseTime_d timeStr =
     (case map (\<lambda>s. of_jsnum (js_Number s)) (split_on 58 timeStr) of
        hours # minutes # _ \<Rightarrow> d_add (d_mul hours (Fin 60)) minutes
      | _ \<Rightarrow> DNaN)"

definition formatTime_d :: "double \<Rightarrow> jsstring" where
  "formatTime_d totalMinutes =
     (case totalMinutes of Fin x \<Rightarrow> formatTime (Val x) | _ \<Rightarrow> formatTime NaN)"

definition addMinutes_d :: "jsstring \<Rightarrow> double \<Rightarrow> jsstring" where
  "addMinutes_d timeStr minutesToAdd =
     (let currentMinutes = parseTime_d timeStr
      in formatTime_d (d_add currentMinutes minutesToAdd))"

section \<open>The recalculation engine over doubles\<close>

text \<open>
  The engine once more, statement by statement, with the arithmetic of doubles; the
  definitions carry the suffix \<open>_d\<close>. A segment has doubles in its numeric fields and
  in its custom duration.
\<close>

definition calculateEP_d :: "double \<Rightarrow> double \<Rightarrow> double" where
  "calculateEP_d distanceKm elevM = d_add distanceKm (d_div elevM (Fin 100))"

type_synonym Segment_d = "(double, double) Segment_of"

type_synonym running_d = "double running_of"

definition safeEPH_d :: "Segment_d \<Rightarrow> double" where
  "safeEPH_d seg = (if d_gt (targetEPH seg) (Fin 0) then targetEPH seg else Fin 1)"

definition fixedIntensity_d :: "double \<Rightarrow> Segment_d \<Rightarrow> double \<times> double" where
  "fixedIntensity_d ep' seg =
     (let targetTimeHours' = d_div ep' (safeEPH_d seg)
      in (targetTimeHours', d_mul targetTimeHours' (Fin 60)))"

definition legDuration_d :: "nat \<Rightarrow> Segment_d \<Rightarrow> double \<Rightarrow> double \<times> double" where
  "legDuration_d index seg ep' =
     (if index = 0 then (Fin 0, Fin 0)
      else (case customDurationMins seg of
              Some d \<Rightarrow> if d_gt d (Fin 0) then (d_div d (Fin 60), d) else fixedIntensity_d ep' seg
            | None \<Rightarrow> fixedIntensity_d ep' seg))"

definition recalc_callback_d ::
  "jsstring \<Rightarrow> running_d \<Rightarrow> Segment_d \<Rightarrow> nat \<Rightarrow> Segment_d \<times> running_d" where
  "recalc_callback_d globalStart r seg index =
     (let ep' = calculateEP_d (splitDistKm seg) (splitElevM seg);
          effectiveEPH = targetEPH seg;
          (targetTimeHours', targetTimeMins') = legDuration_d index seg ep';
          runningDist' = d_add (runningDist r) (splitDistKm seg);
          runningElev' = d_add (runningElev r) (splitElevM seg);
          runningTimeHours' = d_add (runningTimeHours r) targetTimeHours';
          segStartTime = (if index = 0 then globalStart else currentClockTime r);
          segEndTime = addMinutes_d segStartTime targetTimeMins';
          accuEPH' = (if d_gt runningTimeHours' (Fin 0)
                      then d_div (d_add runningDist' (d_div runningElev' (Fin 100)))
                             runningTimeHours'
                      else Fin 0)
      in (seg\<lparr>ep := ep',
              targetEPH := effectiveEPH,
              targetTimeHours := targetTimeHours',
              targetTimeMins := targetTimeMins',
              startTime := segStartTime,
              endTime := segEndTime,
              totalDistKm := runningDist',
              accuElevM := runningElev',
              accuTimeHours := runningTimeHours',
              accuEPH := (if index = 0 then Fin 0 else accuEPH')\<rparr>,
          \<lparr>runningDist = runningDist',
           runningElev = runningElev',
           runningTimeHours = runningTimeHours',
           currentClockTime = segEndTime\<rparr>))"

fun recalc_map_d :: "jsstring \<Rightarrow> running_d \<Rightarrow> nat \<Rightarrow> Segment_d list \<Rightarrow> Segment_d list" where
  "recalc_map_d globalStart r index [] = []"
| "recalc_map_d globalStart r index (seg # rest) =
     (case recalc_callback_d globalStart r seg index of
        (seg', r') \<Rightarrow> seg' # recalc_map_d globalStart r' (Suc index) rest)"

definition recalculateSegments_d :: "Segment_d list \<Rightarrow> jsstring \<Rightarrow> Segment_d list" where
  "recalculateSegments_d currentSegments globalStart =
     recalc_map_d globalStart
       \<lparr>runningDist = Fin 0, runningElev = Fin 0, runningTimeHours = Fin 0,
        currentClockTime = globalStart\<rparr> 0 currentSegments"

text \<open>\<open>createEmptySegment\<close> as a segment over doubles.\<close>

definition createEmptySegment_d :: "jsstring \<Rightarrow> jsstring \<Rightarrow> jsstring \<Rightarrow> Segment_d" where
  "createEmptySegment_d newId name' description' =
     \<lparr>seg_id = newId,
      name = name',
      description = description',
      splitDistKm = Fin 0,
      splitElevM = Fin 0,
      targetEPH = Fin 10,
      customDurationMins = None,
      ep = Fin 0,
      targetTimeHours = Fin 0,
      targetTimeMins = Fin 0,
      startTime = DEFAULT_START_TIME,
      endTime = DEFAULT_START_TIME,
      totalDistKm = Fin 0,
      accuElevM = Fin 0,
      accuTimeHours = Fin 0,
      accuEPH = Fin 0\<rparr>"

section \<open>Auxiliary notions for the proofs\<close>

text \<open>The variables of the callback after it has run over a list of segments.\<close>

fun running_after :: "jsstring \<Rightarrow> running \<Rightarrow> nat \<Rightarrow> Segment list \<Rightarrow> running" where
  "running_after globalStart r index [] = r"
| "running_after globalStart r index (seg # rest) =
     running_after globalStart (snd (recalc_callback globalStart r seg index)) (Suc index) rest"

definition running_init :: "jsstring \<Rightarrow> running" where
  "running_init globalStart =
     \<lparr>runningDist = 0, runningElev = 0, runningTimeHours = 0, currentClockTime = globalStart\<rparr>"

text \<open>The same two notions for the engine over doubles.\<close>

fun running_after_d :: "jsstring \<Rightarrow> running_d \<Rightarrow> nat \<Rightarrow> Segment_d list \<Rightarrow> running_d" where
  "running_after_d globalStart r index [] = r"
| "running_after_d globalStart r index (seg # rest) =
     running_after_d globalStart (snd (recalc_callback_d globalStart r seg index)) (Suc index) rest"

definition running_init_d :: "jsstring \<Rightarrow> running_d" where
  "running_init_d globalStart =
     \<lparr>runningDist = Fin 0, runningElev = Fin 0, runningTimeHours = Fin 0,
      currentClockTime = globalStart\<rparr>"

text \<open>A time of day as a time input gives it: two digits, a colon, two digits.\<close>

definition hhmm :: "nat \<Rightarrow> nat \<Rightarrow> jsstring" where
  "hhmm h m = [digit_char (h div 10), digit_char (h mod 10), 58,
               digit_char (m div 10), digit_char (m mod 10)]"

section \<open>Example plans\<close>

text \<open>
  The two rows a new plan starts with, the leg filled in as in the end-to-end scenario of
  the specification: 13.2 km and 1260 m at 10 effort points per hour.
\<close>

definition exampleStart :: Segment where
  "exampleStart =
     (createEmptySegment (js_of ''s0'') (js_of ''Start'') (js_of ''Start Point''))
       \<lparr>targetEPH := 0\<rparr>"

definition exampleA :: Segment where
  "exampleA =
     (createEmptySegment (js_of ''s1'') (js_of ''A'') (js_of ''Start To A''))
       \<lparr>splitDistKm := 13.2, splitElevM := 1260\<rparr>"

text \<open>The same leg with its end time fixed 90 minutes after its start.\<close>

definition exampleFixed :: Segment where
  "exampleFixed = exampleA\<lparr>customDurationMins := Some (Val 90)\<rparr>"

text \<open>A start row that carries inputs of its own, and a fixed duration.\<close>

definition exampleLoadedStart :: Segment where
  "exampleLoadedStart =
     exampleStart\<lparr>splitDistKm := 5, splitElevM := 200, targetEPH := 10,
                  customDurationMins := Some (Val 30)\<rparr>"

text \<open>The editor on the plan of the scenario, recalculated; and the same with the leg named Z.\<close>

definition exampleEditor :: editor where
  "exampleEditor =
     \<lparr>st_name = js_of ''New Morning Run'', st_startTime = js_of ''07:00'',
      st_segments = recalculateSegments [exampleStart, exampleA] (js_of ''07:00'')\<rparr>"

definition exampleEditorZ :: editor where
  "exampleEditorZ =
     \<lparr>st_name = js_of ''New Morning Run'', st_startTime = js_of ''07:00'',
      st_segments =
        recalculateSegments [exampleStart, exampleA\<lparr>name := js_of ''Z''\<rparr>] (js_of ''07:00'')\<rparr>"

text \<open>
  The same rows over doubles; and two legs of \<open>2 ^ 1023\<close> km, a finite double, one at a
  quarter of an effort point per hour and one at 1.
\<close>

definition huge :: real where
  "huge = 2 ^ 1023"

definition exampleStart_d :: Segment_d where
  "exampleStart_d =
     (createEmptySegment_d (js_of ''s0'') (js_of ''Start'') (js_of ''Start Point''))
       \<lparr>targetEPH := Fin 0\<rparr>"

definition exampleA_d :: Segment_d where
  "exampleA_d =
     (createEmptySegment_d (js_of ''s1'') (js_of ''A'') (js_of ''Start To A''))
       \<lparr>splitDistKm := Fin 13.2, splitElevM := Fin 1260\<rparr>"

definition exampleSlow_d :: Segment_d where
  "exampleSlow_d =
     (createEmptySegment_d (js_of ''s1'') (js_of ''A'') (js_of ''Start To A''))
       \<lparr>splitDistKm := Fin huge, targetEPH := Fin (1 / 4)\<rparr>"

definition exampleLong_d :: Segment_d where
  "exampleLong_d =
     (createEmptySegment_d (js_of ''s1'') (js_of ''A'') (js_of ''Start To A''))
       \<lparr>splitDistKm := Fin huge, targetEPH := Fin 1\<rparr>"

section \<open>The duration of an end-time edit\<close>

text \<open>
  The duration as the specification words it, to be compared with what
  \<open>handleEndTimeChange\<close> stores: \<open>max(1, endMinutes - startMinutes)\<close>, with 1440 added to
  \<open>endMinutes\<close> first when it is less than \<open>startMinutes\<close>.
\<close>

definition specDuration :: "real \<Rightarrow> real \<Rightarrow> real" where
  "specDuration startMinutes endMinutes =
     max 1 ((if endMinutes < startMinutes then endMinutes + 1440 else endMinutes) - startMinutes)"

text \<open>
  The arithmetic of \<open>handleEndTimeChange\<close> on whole minutes \<open>s\<close> (start) and \<open>e\<close> (new
  end), for the proofs.
\<close>

definition impliedMinutes :: "nat \<Rightarrow> nat \<Rightarrow> nat" where
  "impliedMinutes s e = (if e < s then e + 1440 - s else if e = s then 1 else e - s)"

section \<open>Evaluation of the time utilities\<close>

lemma nat_toString_small: "n < 10 \<Longrightarrow> nat_toString n = [digit_char n]"
  by (simp add: nat_toString.simps)

lemma nat_toString_large:
  "\<not> n < 10 \<Longrightarrow> nat_toString n = nat_toString (n div 10) @ [digit_char (n mod 10)]"
  by (subst nat_toString.simps) simp

lemmas time_eval =
  formatTime_def js_of_def Math_round_def js_rem_def padStart2_def int_toString_def
  nat_toString_small nat_toString_large digit_char_def Let_def addMinutes_def parseTime_def
  js_Number_def is_digit_def parse_digits_def digit_val_def

lemmas engine_eval =
  recalculateSegments_def recalc_callback_def legDuration_def fixedIntensity_def safeEPH_def
  calculateEP_def
  createEmptySegment_def DEFAULT_START_TIME_def Let_def

lemma addMinutes_0700_0: "addMinutes (js_of ''07:00'') 0 = js_of ''07:00''"
  by (simp add: time_eval)

lemma addMinutes_0700_leg: "addMinutes (js_of ''07:00'') (774 / 5) = js_of ''09:35''"
  by (simp add: time_eval)

lemma example_recalculated:
  "recalculateSegments [exampleStart, exampleA] (js_of ''07:00'') =
     [exampleStart\<lparr>startTime := js_of ''07:00'', endTime := js_of ''07:00''\<rparr>,
      exampleA\<lparr>ep := 129 / 5, targetTimeHours := 129 / 50, targetTimeMins := 774 / 5,
               startTime := js_of ''07:00'', endTime := js_of ''09:35'',
               totalDistKm := 66 / 5, accuElevM := 1260, accuTimeHours := 129 / 50,
               accuEPH := 10\<rparr>]"
  by (simp add: engine_eval exampleStart_def exampleA_def
      addMinutes_0700_0 addMinutes_0700_leg)

section \<open>The output of the engine, position by position\<close>

lemma length_recalc_map: "length (recalc_map g r i segs) = length segs"
  by (induction segs arbitrary: r i) (auto split: prod.splits)

lemma length_recalculate: "length (recalculateSegments segs g) = length segs"
  by (simp add: recalculateSegments_def length_recalc_map)

lemma recalc_map_nth:
  "k < length segs \<Longrightarrow>
   recalc_map g r i segs ! k =
     fst (recalc_callback g (running_after g r i (take k segs)) (segs ! k) (i + k))"
proof (induction segs arbitrary: r i k)
  case Nil
  then show ?case by simp
next
  case (Cons seg rest)
  show ?case
  proof (cases k)
    case 0
    then show ?thesis by (simp split: prod.splits)
  next
    case (Suc j)
    with Cons.prems have "j < length rest" by simp
    from Cons.IH [OF this] Suc show ?thesis by (simp split: prod.splits)
  qed
qed

lemma recalculate_nth:
  "k < length segs \<Longrightarrow>
   recalculateSegments segs g ! k =
     fst (recalc_callback g (running_after g (running_init g) 0 (take k segs)) (segs ! k) k)"
  by (simp add: recalculateSegments_def running_init_def recalc_map_nth)

section \<open>The effort score\<close>

text \<open>
  Claim C1. Every segment of the output of \<open>recalculateSegments\<close>, at whatever position and
  in whatever mode, has \<open>ep\<close> equal to its \<open>splitDistKm\<close> plus a hundredth of its
  \<open>splitElevM\<close>; these two inputs are those of the segment given at that position.
\<close>

theorem ep_formula:
  assumes "i < length (recalculateSegments segs g)"
  shows "ep (recalculateSegments segs g ! i) =
           splitDistKm (recalculateSegments segs g ! i)
             + splitElevM (recalculateSegments segs g ! i) / 100
         \<and> splitDistKm (recalculateSegments segs g ! i) = splitDistKm (segs ! i)
         \<and> splitElevM (recalculateSegments segs g ! i) = splitElevM (segs ! i)"
  using assms
  by (simp add: length_recalculate recalculate_nth recalc_callback_def calculateEP_def Let_def
      split: prod.splits)

theorem ep_formula_witness:
  "1 < length (recalculateSegments [exampleStart, exampleA] (js_of ''07:00''))
   \<and> ep (recalculateSegments [exampleStart, exampleA] (js_of ''07:00'') ! 1) = 129 / 5
   \<and> splitDistKm (recalculateSegments [exampleStart, exampleA] (js_of ''07:00'') ! 1) = 66 / 5
   \<and> splitElevM (recalculateSegments [exampleStart, exampleA] (js_of ''07:00'') ! 1) = 1260"
  using ep_formula [of 1 "[exampleStart, exampleA]" "js_of ''07:00''"]
  unfolding example_recalculated
  by (simp add: exampleA_def createEmptySegment_def)


section \<open>The callback at one segment\<close>

lemma callback_input_fields:
  "splitDistKm (fst (recalc_callback g r seg i)) = splitDistKm seg"
  "splitElevM (fst (recalc_callback g r seg i)) = splitElevM seg"
  "targetEPH (fst (recalc_callback g r seg i)) = targetEPH seg"
  "customDurationMins (fst (recalc_callback g r seg i)) = customDurationMins seg"
  by (simp_all add: recalc_callback_def Let_def case_prod_beta)

lemma callback_durations:
  "targetTimeHours (fst (recalc_callback g r seg i)) =
     fst (legDuration i seg (calculateEP (splitDistKm seg) (splitElevM seg)))"
  "targetTimeMins (fst (recalc_callback g r seg i)) =
     snd (legDuration i seg (calculateEP (splitDistKm seg) (splitElevM seg)))"
  "ep (fst (recalc_callback g r seg i)) = calculateEP (splitDistKm seg) (splitElevM seg)"
  by (simp_all add: recalc_callback_def Let_def case_prod_beta)

lemma callback_startTime:
  "startTime (fst (recalc_callback g r seg i)) = (if i = 0 then g else currentClockTime r)"
  by (simp add: recalc_callback_def Let_def case_prod_beta)

lemma callback_endTime:
  "endTime (fst (recalc_callback g r seg i)) =
     addMinutes (startTime (fst (recalc_callback g r seg i)))
       (targetTimeMins (fst (recalc_callback g r seg i)))"
  by (simp add: recalc_callback_def Let_def case_prod_beta)

lemma callback_clock:
  "currentClockTime (snd (recalc_callback g r seg i)) = endTime (fst (recalc_callback g r seg i))"
  by (simp add: recalc_callback_def Let_def case_prod_beta)

lemma callback_running:
  "runningDist (snd (recalc_callback g r seg i)) = runningDist r + splitDistKm seg"
  "runningElev (snd (recalc_callback g r seg i)) = runningElev r + splitElevM seg"
  "runningTimeHours (snd (recalc_callback g r seg i)) =
     runningTimeHours r + targetTimeHours (fst (recalc_callback g r seg i))"
  by (simp_all add: recalc_callback_def Let_def case_prod_beta)

lemma callback_totals:
  "totalDistKm (fst (recalc_callback g r seg i)) = runningDist r + splitDistKm seg"
  "accuElevM (fst (recalc_callback g r seg i)) = runningElev r + splitElevM seg"
  "accuTimeHours (fst (recalc_callback g r seg i)) =
     runningTimeHours r + targetTimeHours (fst (recalc_callback g r seg i))"
  by (simp_all add: recalc_callback_def Let_def case_prod_beta)

lemma callback_accuEPH:
  "accuEPH (fst (recalc_callback g r seg i)) =
     (if i = 0 then 0
      else if 0 < accuTimeHours (fst (recalc_callback g r seg i))
      then (totalDistKm (fst (recalc_callback g r seg i))
              + accuElevM (fst (recalc_callback g r seg i)) / 100)
           / accuTimeHours (fst (recalc_callback g r seg i))
      else 0)"
  by (simp add: recalc_callback_def Let_def case_prod_beta)

lemma legDuration_cong:
  "targetEPH s = targetEPH s' \<Longrightarrow> customDurationMins s = customDurationMins s' \<Longrightarrow>
   legDuration i s e = legDuration i s' e"
  by (simp add: legDuration_def fixedIntensity_def safeEPH_def split: option.splits jsnum.splits)

lemma callback_idem:
  "recalc_callback g r (fst (recalc_callback g r seg i)) i = recalc_callback g r seg i"
proof -
  let ?s = "fst (recalc_callback g r seg i)"
  have "legDuration i ?s e = legDuration i seg e" for e
    by (rule legDuration_cong) (simp_all add: callback_input_fields)
  then show ?thesis
    by (simp add: recalc_callback_def Let_def case_prod_beta)
qed

section \<open>The variables of the callback along the list\<close>

lemma running_after_append:
  "running_after g r i (xs @ ys) = running_after g (running_after g r i xs) (i + length xs) ys"
  by (induction xs arbitrary: r i) simp_all

lemma running_after_snoc:
  "running_after g r i (xs @ [x]) =
     snd (recalc_callback g (running_after g r i xs) x (i + length xs))"
  by (simp add: running_after_append)

lemma running_after_dist:
  "runningDist (running_after g r i xs) = runningDist r + sum_list (map splitDistKm xs)"
  by (induction xs arbitrary: r i) (simp_all add: callback_running)

lemma running_after_elev:
  "runningElev (running_after g r i xs) = runningElev r + sum_list (map splitElevM xs)"
  by (induction xs arbitrary: r i) (simp_all add: callback_running)

lemma running_after_time:
  "runningTimeHours (running_after g r i xs) =
     runningTimeHours r + sum_list (map targetTimeHours (recalc_map g r i xs))"
  by (induction xs arbitrary: r i) (simp_all add: callback_running split: prod.splits)

lemma recalc_map_take:
  "take k (recalc_map g r i xs) = recalc_map g r i (take k xs)"
proof (induction xs arbitrary: r i k)
  case Nil
  show ?case by simp
next
  case (Cons x xs)
  show ?case by (cases k) (simp_all add: Cons.IH split: prod.splits)
qed

lemma recalc_map_snoc:
  "recalc_map g r i (xs @ [x]) =
     recalc_map g r i xs @ [fst (recalc_callback g (running_after g r i xs) x (i + length xs))]"
  by (induction xs arbitrary: r i) (simp_all split: prod.splits)

lemma clock_before:
  assumes "0 < k" and "k < length segs"
  shows "currentClockTime (running_after g (running_init g) 0 (take k segs)) =
           endTime (recalculateSegments segs g ! (k - 1))"
proof -
  from assms obtain j where j: "k = Suc j" by (cases k) auto
  with assms have jlt: "j < length segs" by simp
  have "take k segs = take j segs @ [segs ! j]"
    using jlt j by (simp add: take_Suc_conv_app_nth)
  then show ?thesis
    using jlt j by (simp add: running_after_snoc callback_clock recalculate_nth)
qed

lemma totals_nth:
  assumes "k < length segs"
  shows "totalDistKm (recalculateSegments segs g ! k) = sum_list (map splitDistKm (take (Suc k) segs))"
    and "accuElevM (recalculateSegments segs g ! k) = sum_list (map splitElevM (take (Suc k) segs))"
    and "accuTimeHours (recalculateSegments segs g ! k) =
           sum_list (map targetTimeHours (take (Suc k) (recalculateSegments segs g)))"
proof -
  have t: "take (Suc k) segs = take k segs @ [segs ! k]"
    using assms by (simp add: take_Suc_conv_app_nth)
  show "totalDistKm (recalculateSegments segs g ! k) = sum_list (map splitDistKm (take (Suc k) segs))"
    using assms by (simp add: recalculate_nth callback_totals running_after_dist t running_init_def)
  show "accuElevM (recalculateSegments segs g ! k) = sum_list (map splitElevM (take (Suc k) segs))"
    using assms by (simp add: recalculate_nth callback_totals running_after_elev t running_init_def)
  have "take (Suc k) (recalculateSegments segs g) =
          recalc_map g (running_init g) 0 (take k segs) @ [recalculateSegments segs g ! k]"
    using assms
    by (simp add: recalculateSegments_def recalc_map_take t recalc_map_snoc recalc_map_nth
        running_init_def)
  then show "accuTimeHours (recalculateSegments segs g ! k) =
           sum_list (map targetTimeHours (take (Suc k) (recalculateSegments segs g)))"
    using assms
    by (simp add: recalculate_nth callback_totals running_after_time running_init_def)
qed

lemma recalc_map_idem:
  "recalc_map g r i (recalc_map g r i segs) = recalc_map g r i segs"
proof (induction segs arbitrary: r i)
  case Nil
  show ?case by simp
next
  case (Cons seg rest)
  obtain seg' r' where c: "recalc_callback g r seg i = (seg', r')"
    by (cases "recalc_callback g r seg i")
  with callback_idem [of g r seg i] have "recalc_callback g r seg' i = (seg', r')" by simp
  with c Cons.IH [of r' "Suc i"] show ?case by simp
qed

section \<open>Evaluation of the example plans\<close>


lemma addMinutes_0700_90: "addMinutes (js_of ''07:00'') 90 = js_of ''08:30''"
  by (simp add: time_eval)

lemma exampleFixed_recalculated:
  "recalculateSegments [exampleStart, exampleFixed] (js_of ''07:00'') =
     [exampleStart\<lparr>startTime := js_of ''07:00'', endTime := js_of ''07:00''\<rparr>,
      exampleFixed\<lparr>ep := 129 / 5, targetTimeHours := 3 / 2, targetTimeMins := 90,
               startTime := js_of ''07:00'', endTime := js_of ''08:30'',
               totalDistKm := 66 / 5, accuElevM := 1260, accuTimeHours := 3 / 2,
               accuEPH := 86 / 5\<rparr>]"
  by (simp add: engine_eval exampleStart_def exampleA_def exampleFixed_def
      addMinutes_0700_0 addMinutes_0700_90)

section \<open>Fixed-Duration mode\<close>

text \<open>
  Claim C3. At a position after the first, a segment whose \<open>customDurationMins\<close> is a
  positive number \<open>d\<close> gets \<open>targetTimeMins = d\<close> and \<open>targetTimeHours = d / 60\<close>, and its
  \<open>targetEPH\<close> is the one it had before: it is not derived from the duration.
\<close>

theorem fixed_duration_kept:
  assumes "0 < i" and "i < length segs"
    and "customDurationMins (segs ! i) = Some (Val d)" and "0 < d"
  shows "targetTimeMins (recalculateSegments segs g ! i) = d
         \<and> targetTimeHours (recalculateSegments segs g ! i) = d / 60
         \<and> targetEPH (recalculateSegments segs g ! i) = targetEPH (segs ! i)
         \<and> customDurationMins (recalculateSegments segs g ! i) = Some (Val d)"
  using assms
  by (simp add: recalculate_nth callback_durations callback_input_fields legDuration_def)

theorem fixed_duration_kept_witness:
  "(0::nat) < 1 \<and> 1 < length [exampleStart, exampleFixed]
   \<and> customDurationMins ([exampleStart, exampleFixed] ! 1) = Some (Val 90) \<and> (0::real) < 90
   \<and> targetTimeMins (recalculateSegments [exampleStart, exampleFixed] (js_of ''07:00'') ! 1) = 90
   \<and> targetTimeHours (recalculateSegments [exampleStart, exampleFixed] (js_of ''07:00'') ! 1) = 90 / 60
   \<and> targetEPH (recalculateSegments [exampleStart, exampleFixed] (js_of ''07:00'') ! 1) =
       targetEPH ([exampleStart, exampleFixed] ! 1)
   \<and> targetEPH (recalculateSegments [exampleStart, exampleFixed] (js_of ''07:00'') ! 1) = 10"
  using fixed_duration_kept [of 1 "[exampleStart, exampleFixed]" 90 "js_of ''07:00''"]
  unfolding exampleFixed_recalculated
  by (simp add: exampleFixed_def exampleA_def createEmptySegment_def)

section \<open>The start row\<close>

text \<open>
  Claim C4. Whatever the segments and the global start time, the first segment of the
  output has \<open>targetTimeHours = 0\<close>, \<open>targetTimeMins = 0\<close> and \<open>accuEPH = 0\<close>.
\<close>

theorem start_row_zero:
  assumes "segs \<noteq> []"
  shows "targetTimeHours (recalculateSegments segs g ! 0) = 0
         \<and> targetTimeMins (recalculateSegments segs g ! 0) = 0
         \<and> accuEPH (recalculateSegments segs g ! 0) = 0"
  using assms
  by (simp add: recalculate_nth callback_durations callback_accuEPH legDuration_def)

theorem start_row_zero_witness:
  "[exampleLoadedStart, exampleA] \<noteq> []
   \<and> targetEPH exampleLoadedStart = 10 \<and> splitDistKm exampleLoadedStart = 5
   \<and> customDurationMins exampleLoadedStart = Some (Val 30)
   \<and> targetTimeHours (recalculateSegments [exampleLoadedStart, exampleA] (js_of ''07:00'') ! 0) = 0
   \<and> targetTimeMins (recalculateSegments [exampleLoadedStart, exampleA] (js_of ''07:00'') ! 0) = 0
   \<and> accuEPH (recalculateSegments [exampleLoadedStart, exampleA] (js_of ''07:00'') ! 0) = 0"
  using start_row_zero [of "[exampleLoadedStart, exampleA]" "js_of ''07:00''"]
  by (simp add: exampleLoadedStart_def)

section \<open>The timeline\<close>

text \<open>
  Claim C5. In the output, the first segment starts at the global start time, and every
  later segment starts at the end time of the segment before it.
\<close>

theorem timeline_continuity:
  "(segs \<noteq> [] \<longrightarrow> startTime (recalculateSegments segs g ! 0) = g)
   \<and> (\<forall>i. 0 < i \<and> i < length segs \<longrightarrow>
         startTime (recalculateSegments segs g ! i) = endTime (recalculateSegments segs g ! (i - 1)))"
proof (intro conjI allI impI)
  assume "segs \<noteq> []"
  then show "startTime (recalculateSegments segs g ! 0) = g"
    by (simp add: recalculate_nth callback_startTime)
next
  fix i
  assume i: "0 < i \<and> i < length segs"
  then show "startTime (recalculateSegments segs g ! i) = endTime (recalculateSegments segs g ! (i - 1))"
    using clock_before [of i segs g] by (simp add: recalculate_nth callback_startTime)
qed

theorem timeline_continuity_witness:
  "[exampleStart, exampleFixed] \<noteq> []
   \<and> startTime (recalculateSegments [exampleStart, exampleFixed] (js_of ''07:00'') ! 0) = js_of ''07:00''
   \<and> (0::nat) < 1 \<and> 1 < length [exampleStart, exampleFixed]
   \<and> startTime (recalculateSegments [exampleStart, exampleFixed] (js_of ''07:00'') ! 1) =
       endTime (recalculateSegments [exampleStart, exampleFixed] (js_of ''07:00'') ! (1 - 1))
   \<and> endTime (recalculateSegments [exampleStart, exampleFixed] (js_of ''07:00'') ! 1) = js_of ''08:30''"
  using timeline_continuity [of "[exampleStart, exampleFixed]" "js_of ''07:00''"]
  unfolding exampleFixed_recalculated
  by simp

section \<open>Idempotence\<close>

text \<open>
  Claim C7. Recalculating the output of a recalculation, with the same global start time,
  changes no field of any segment.
\<close>

theorem recalculate_idempotent:
  "recalculateSegments (recalculateSegments segs g) g = recalculateSegments segs g"
  by (simp add: recalculateSegments_def recalc_map_idem)


section \<open>Clock times as strings\<close>

lemma unat_digit_char: "d < 10 \<Longrightarrow> unat (digit_char d) = 48 + d"
  by (simp add: digit_char_def unat_of_nat del: of_nat_add)

lemma digit_char_not_colon: "d < 10 \<Longrightarrow> digit_char d \<noteq> 58"
proof
  assume d: "d < 10" and "digit_char d = 58"
  then have "unat (digit_char d) = unat (58 :: 16 word)" by simp
  with d show False by (simp add: unat_digit_char)
qed

lemma digit_char_not_sign: "d < 10 \<Longrightarrow> digit_char d \<noteq> 45 \<and> digit_char d \<noteq> 43"
proof (intro conjI notI)
  assume d: "d < 10" and "digit_char d = 45"
  then have "unat (digit_char d) = unat (45 :: 16 word)" by simp
  with d show False by (simp add: unat_digit_char)
next
  assume d: "d < 10" and "digit_char d = 43"
  then have "unat (digit_char d) = unat (43 :: 16 word)" by simp
  with d show False by (simp add: unat_digit_char)
qed

lemma is_digit_digit_char: "d < 10 \<Longrightarrow> is_digit (digit_char d)"
  by (simp add: is_digit_def unat_digit_char)

lemma digit_val_digit_char: "d < 10 \<Longrightarrow> digit_val (digit_char d) = d"
  by (simp add: digit_val_def unat_digit_char)

lemma js_Number_two_digits:
  assumes "a < 10" and "b < 10"
  shows "js_Number [digit_char a, digit_char b] = Val (real (10 * a + b))"
  using assms
  by (simp add: js_Number_def digit_char_not_sign is_digit_digit_char parse_digits_def
      digit_val_digit_char)

lemma split_on_hhmm:
  assumes "a < 10" "b < 10" "c < 10" "d < 10"
  shows "split_on 58 [digit_char a, digit_char b, 58, digit_char c, digit_char d] =
           [[digit_char a, digit_char b], [digit_char c, digit_char d]]"
  using assms by (simp add: digit_char_not_colon)

lemma parseTime_hhmm:
  assumes "h < 100" and "m < 100"
  shows "parseTime (hhmm h m) = Val (real (60 * h + m))"
proof -
  have b: "h div 10 < 10" "h mod 10 < 10" "m div 10 < 10" "m mod 10 < 10"
    using assms by simp_all
  have "parseTime (hhmm h m) =
          js_add (js_mul (Val (real (10 * (h div 10) + h mod 10))) (Val 60))
            (Val (real (10 * (m div 10) + m mod 10)))"
    unfolding parseTime_def hhmm_def split_on_hhmm [OF b]
    by (simp add: js_Number_two_digits b del: of_nat_add of_nat_mult)
  then show ?thesis by simp
qed

lemma pad_two_digits:
  "k < 100 \<Longrightarrow>
   padStart2 (nat_toString k) = [digit_char (k div 10), digit_char (k mod 10)]"
proof (cases "k < 10")
  case True
  then show ?thesis by (simp add: nat_toString_small padStart2_def)
next
  case False
  assume "k < 100"
  then have "k div 10 < 10" by simp
  with False show ?thesis
    by (simp add: nat_toString_large nat_toString_small padStart2_def)
qed

lemma js_rem_nonneg: "js_rem (int a) (int b) = int (a mod b)"
  by (cases "a = 0") (simp_all add: js_rem_def zmod_int)

lemma Math_round_of_nat: "Math_round (real n) = int n"
  by (simp add: Math_round_def)

lemma formatTime_nat:
  "formatTime (Val (real n)) = hhmm ((n div 60) mod 24) (n mod 60)"
proof -
  have h: "js_rem (int n div 60) 24 = int ((n div 60) mod 24)"
    using js_rem_nonneg [of "n div 60" 24] by (simp add: zdiv_int)
  have m: "js_rem (int n) 60 = int (n mod 60)"
    using js_rem_nonneg [of n 60] by simp
  have "(n div 60) mod 24 < 100" "n mod 60 < 100"
    by (simp_all add: less_trans [OF mod_less_divisor])
  then show ?thesis
    by (simp add: formatTime_def Math_round_of_nat Let_def h m int_toString_def
        pad_two_digits hhmm_def js_of_def)
qed

lemma addMinutes_hhmm:
  assumes "h < 100" and "m < 100"
  shows "addMinutes (hhmm h m) (real d) = hhmm (((60 * h + m + d) div 60) mod 24) ((60 * h + m + d) mod 60)"
proof -
  have "addMinutes (hhmm h m) (real d) = formatTime (Val (real (60 * h + m + d)))"
    by (simp add: addMinutes_def parseTime_hhmm assms)
  then show ?thesis by (simp only: formatTime_nat)
qed

section \<open>Editing an end time\<close>

lemma impliedMinutes_claimed:
  "s < 1440 \<Longrightarrow> real (impliedMinutes s e) = specDuration (real s) (real e)"
  by (auto simp: impliedMinutes_def specDuration_def max_def of_nat_diff)

lemma impliedMinutes_pos: "s < 1440 \<Longrightarrow> 0 < impliedMinutes s e"
  by (simp add: impliedMinutes_def)

lemma handler_result:
  assumes "0 < index" and "index < length (st_segments st)"
    and "startTime (st_segments st ! index) = hhmm sh sm" and "sh < 24" and "sm < 60"
    and "eh < 24" and "em < 60"
  shows "handleEndTimeChange st index (hhmm eh em) =
           Inr (st\<lparr>st_segments :=
                  recalculateSegments
                    ((st_segments st)[index := (st_segments st ! index)
                       \<lparr>customDurationMins :=
                          Some (Val (real (impliedMinutes (60 * sh + sm) (60 * eh + em))))\<rparr>])
                    (st_startTime st)\<rparr>)"
proof -
  define s e where "s = 60 * sh + sm" and "e = 60 * eh + em"
  have p: "parseTime (hhmm sh sm) = Val (real s)" "parseTime (hhmm eh em) = Val (real e)"
    using assms by (simp_all add: parseTime_hhmm s_def e_def)
  have s: "s < 1440" using assms by (simp add: s_def)
  have "handleEndTimeChange st index (hhmm eh em) =
           Inr (st\<lparr>st_segments :=
                  recalculateSegments
                    ((st_segments st)[index := (st_segments st ! index)
                       \<lparr>customDurationMins := Some (Val (real (impliedMinutes s e)))\<rparr>])
                    (st_startTime st)\<rparr>)"
    using assms(1,2) s
    by (auto simp: handleEndTimeChange_def Let_def assms(3) p impliedMinutes_def of_nat_diff)
  then show ?thesis by (simp only: s_def e_def)
qed


lemma clock_at_position:
  assumes "recalculateSegments segs g = segs" and "0 < index" and "index < length segs"
  shows "currentClockTime (running_after g (running_init g) 0 (take index segs)) =
           startTime (segs ! index)"
proof -
  have "startTime (recalculateSegments segs g ! index) =
          currentClockTime (running_after g (running_init g) 0 (take index segs))"
    using assms(2,3) by (simp add: recalculate_nth callback_startTime)
  with assms(1) show ?thesis by simp
qed

lemma edited_segment:
  assumes "recalculateSegments segs g = segs" and "0 < index" and "index < length segs"
    and "0 < d"
  shows "customDurationMins
           (recalculateSegments (segs[index := (segs ! index)\<lparr>customDurationMins := Some (Val d)\<rparr>]) g
              ! index) = Some (Val d)"
    and "targetTimeMins
           (recalculateSegments (segs[index := (segs ! index)\<lparr>customDurationMins := Some (Val d)\<rparr>]) g
              ! index) = d"
    and "startTime
           (recalculateSegments (segs[index := (segs ! index)\<lparr>customDurationMins := Some (Val d)\<rparr>]) g
              ! index) = startTime (segs ! index)"
    and "endTime
           (recalculateSegments (segs[index := (segs ! index)\<lparr>customDurationMins := Some (Val d)\<rparr>]) g
              ! index) = addMinutes (startTime (segs ! index)) d"
proof -
  let ?seg = "(segs ! index)\<lparr>customDurationMins := Some (Val d)\<rparr>"
  let ?out = "recalculateSegments (segs[index := ?seg]) g"
  let ?r = "running_after g (running_init g) 0 (take index segs)"
  have nth: "?out ! index = fst (recalc_callback g ?r ?seg index)"
    using assms(3) by (simp add: recalculate_nth)
  have clock: "currentClockTime ?r = startTime (segs ! index)"
    by (rule clock_at_position [OF assms(1,2,3)])
  show "customDurationMins (?out ! index) = Some (Val d)"
    by (simp add: nth callback_input_fields)
  show mins: "targetTimeMins (?out ! index) = d"
    using assms(2,4) by (simp add: nth callback_durations legDuration_def)
  show start: "startTime (?out ! index) = startTime (segs ! index)"
    using assms(2) by (simp add: nth callback_startTime clock)
  show "endTime (?out ! index) = addMinutes (startTime (segs ! index)) d"
    using mins start by (simp only: nth callback_endTime)
qed

lemma end_minutes_reached:
  assumes "sh < 24" and "sm < 60" and "eh < 24" and "em < 60"
    and "60 * eh + em \<noteq> 60 * sh + sm"
  shows "(60 * sh + sm + impliedMinutes (60 * sh + sm) (60 * eh + em)) div 60 mod 24 = eh"
    and "(60 * sh + sm + impliedMinutes (60 * sh + sm) (60 * eh + em)) mod 60 = em"
proof -
  define s e where "s = 60 * sh + sm" and "e = 60 * eh + em"
  have "s < 1440" using assms by (simp add: s_def)
  with assms(5) have "s + impliedMinutes s e = (if e < s then e + 1440 else e)"
    by (auto simp: impliedMinutes_def s_def e_def)
  then have sum: "60 * sh + sm + impliedMinutes (60 * sh + sm) (60 * eh + em) =
                    (if e < s then 60 * (eh + 24) + em else 60 * eh + em)"
    by (simp add: s_def e_def)
  have d: "(60 * k + em) div 60 = k" "(60 * k + em) mod 60 = em" for k
    using assms(4) by simp_all
  show "(60 * sh + sm + impliedMinutes (60 * sh + sm) (60 * eh + em)) div 60 mod 24 = eh"
    using assms(3) by (simp only: sum d if_distrib [of "\<lambda>x. x div 60"] if_distrib [of "\<lambda>x. x mod 24"]) simp
  show "(60 * sh + sm + impliedMinutes (60 * sh + sm) (60 * eh + em)) mod 60 = em"
    by (simp only: sum d if_distrib [of "\<lambda>x. x mod 60"]) simp
qed


lemma recalculated_fixed:
  "recalculateSegments (recalculateSegments segs g) g = recalculateSegments segs g"
  by (simp add: recalculateSegments_def recalc_map_idem)

lemma exampleEditor_fixed:
  "recalculateSegments (st_segments exampleEditor) (st_startTime exampleEditor) =
     st_segments exampleEditor"
  by (simp add: exampleEditor_def recalculated_fixed)

lemma hhmm_literals:
  "hhmm 7 0 = js_of ''07:00''" "hhmm 9 0 = js_of ''09:00''" "hhmm 7 1 = js_of ''07:01''"
  by (simp_all add: hhmm_def digit_char_def js_of_def)

lemma exampleEditor_facts:
  "length (st_segments exampleEditor) = 2"
  "startTime (st_segments exampleEditor ! 1) = hhmm 7 0"
  "st_startTime exampleEditor = js_of ''07:00''"
  by (simp_all add: exampleEditor_def example_recalculated hhmm_literals)

lemma minutes_inj:
  assumes "sm < 60" and "em < 60" and "60 * eh + em = 60 * sh + (sm::nat)"
  shows "eh = sh \<and> em = sm"
proof -
  have "(60 * eh + em) mod 60 = em" "(60 * sh + sm) mod 60 = sm"
       "(60 * eh + em) div 60 = eh" "(60 * sh + sm) div 60 = sh"
    using assms(1,2) by simp_all
  with assms(3) show ?thesis by metis
qed

text \<open>
  Claim C8, as amended. Take an editor whose segments are recalculated, a position after
  the first whose start time is a time of day \<open>sh:sm\<close>, and a new end time \<open>eh:em\<close>, both
  written with two digits each. The handler stores as \<open>customDurationMins\<close> the duration
  of the specification, \<open>max(1, end - start)\<close> with 1440 added to the end when it is less
  than the start, and the recalculated segment has that duration (Fixed-Duration mode)
  and its start time unchanged. When the new end time differs from the start time, the
  recalculated end time is the new end time; when it equals the start time, the duration
  is 1 and the end time is one minute after the start. At position 0 the handler sets
  the global start time instead.
\<close>

theorem end_time_edit:
  assumes "recalculateSegments (st_segments st) (st_startTime st) = st_segments st"
    and "0 < index" and "index < length (st_segments st)"
    and "startTime (st_segments st ! index) = hhmm sh sm" and "sh < 24" and "sm < 60"
    and "eh < 24" and "em < 60"
  shows "handleEndTimeChange st 0 t = Inr (st\<lparr>st_startTime := t\<rparr>)
         \<and> (\<exists>st'. handleEndTimeChange st index (hhmm eh em) = Inr st'
               \<and> st_startTime st' = st_startTime st
               \<and> customDurationMins (st_segments st' ! index) =
                   Some (Val (specDuration (real (60 * sh + sm)) (real (60 * eh + em))))
               \<and> targetTimeMins (st_segments st' ! index) =
                   specDuration (real (60 * sh + sm)) (real (60 * eh + em))
               \<and> startTime (st_segments st' ! index) = hhmm sh sm
               \<and> ((eh, em) \<noteq> (sh, sm) \<longrightarrow> endTime (st_segments st' ! index) = hhmm eh em)
               \<and> ((eh, em) = (sh, sm) \<longrightarrow>
                    endTime (st_segments st' ! index) = addMinutes (hhmm sh sm) 1))"
proof (intro conjI)
  show "handleEndTimeChange st 0 t = Inr (st\<lparr>st_startTime := t\<rparr>)"
    by (simp add: handleEndTimeChange_def)
next
  let ?s = "60 * sh + sm" and ?e = "60 * eh + em"
  let ?d = "impliedMinutes ?s ?e"
  let ?segs = "recalculateSegments
                 ((st_segments st)[index := (st_segments st ! index)
                    \<lparr>customDurationMins := Some (Val (real ?d))\<rparr>])
                 (st_startTime st)"
  have s: "?s < 1440" using assms(5,6) by simp
  have d: "real ?d = specDuration (real ?s) (real ?e)"
    by (rule impliedMinutes_claimed [OF s])
  have pos: "0 < real ?d"
    using impliedMinutes_pos [OF s, of ?e] by simp
  note seg = edited_segment [OF assms(1,2,3) pos]
  have res: "handleEndTimeChange st index (hhmm eh em) =
               Inr (st\<lparr>st_segments := ?segs\<rparr>)"
    by (rule handler_result [OF assms(2-8)])
  have e0: "endTime (?segs ! index) = addMinutes (hhmm sh sm) (real ?d)"
    by (simp only: seg(4) assms(4))
  also have "\<dots> = hhmm ((?s + ?d) div 60 mod 24) ((?s + ?d) mod 60)"
    using assms(5,6) by (intro addMinutes_hhmm) simp_all
  finally have endT: "endTime (?segs ! index) = hhmm ((?s + ?d) div 60 mod 24) ((?s + ?d) mod 60)" .
  have neq: "endTime (?segs ! index) = hhmm eh em" if "(eh, em) \<noteq> (sh, sm)"
  proof -
    have "?e \<noteq> ?s"
    proof
      assume "?e = ?s"
      from minutes_inj [OF assms(6,8) this] that show False by simp
    qed
    from end_minutes_reached [OF assms(5-8) this] endT show ?thesis by simp
  qed
  have eq: "endTime (?segs ! index) = addMinutes (hhmm sh sm) 1" if "(eh, em) = (sh, sm)"
  proof -
    from that have "real ?d = 1" by (simp add: impliedMinutes_def)
    with e0 show ?thesis by simp
  qed
  show "\<exists>st'. handleEndTimeChange st index (hhmm eh em) = Inr st'
               \<and> st_startTime st' = st_startTime st
               \<and> customDurationMins (st_segments st' ! index) =
                   Some (Val (specDuration (real (60 * sh + sm)) (real (60 * eh + em))))
               \<and> targetTimeMins (st_segments st' ! index) =
                   specDuration (real (60 * sh + sm)) (real (60 * eh + em))
               \<and> startTime (st_segments st' ! index) = hhmm sh sm
               \<and> ((eh, em) \<noteq> (sh, sm) \<longrightarrow> endTime (st_segments st' ! index) = hhmm eh em)
               \<and> ((eh, em) = (sh, sm) \<longrightarrow>
                    endTime (st_segments st' ! index) = addMinutes (hhmm sh sm) 1)"
  proof (intro exI conjI impI)
    show "handleEndTimeChange st index (hhmm eh em) = Inr (st\<lparr>st_segments := ?segs\<rparr>)"
      by (rule res)
    show "st_startTime (st\<lparr>st_segments := ?segs\<rparr>) = st_startTime st" by simp
    show "customDurationMins (st_segments (st\<lparr>st_segments := ?segs\<rparr>) ! index) =
            Some (Val (specDuration (real ?s) (real ?e)))"
      using seg(1) d by simp
    show "targetTimeMins (st_segments (st\<lparr>st_segments := ?segs\<rparr>) ! index) =
            specDuration (real ?s) (real ?e)"
      using seg(2) d by simp
    show "startTime (st_segments (st\<lparr>st_segments := ?segs\<rparr>) ! index) = hhmm sh sm"
      using seg(3) assms(4) by simp
    show "endTime (st_segments (st\<lparr>st_segments := ?segs\<rparr>) ! index) = hhmm eh em"
      if "(eh, em) \<noteq> (sh, sm)"
      using neq [OF that] by simp
    show "endTime (st_segments (st\<lparr>st_segments := ?segs\<rparr>) ! index) = addMinutes (hhmm sh sm) 1"
      if "(eh, em) = (sh, sm)"
      using eq [OF that] by simp
  qed
qed

theorem end_time_edit_witness:
  "recalculateSegments (st_segments exampleEditor) (st_startTime exampleEditor) =
     st_segments exampleEditor
   \<and> (0::nat) < 1 \<and> 1 < length (st_segments exampleEditor)
   \<and> startTime (st_segments exampleEditor ! 1) = hhmm 7 0
   \<and> (7::nat) < 24 \<and> (0::nat) < 60 \<and> (9::nat) < 24 \<and> (9::nat, 0::nat) \<noteq> (7, 0)
   \<and> handleEndTimeChange exampleEditor 0 (js_of ''06:30'') =
       Inr (exampleEditor\<lparr>st_startTime := js_of ''06:30''\<rparr>)
   \<and> (\<exists>st'. handleEndTimeChange exampleEditor 1 (hhmm 9 0) = Inr st'
          \<and> customDurationMins (st_segments st' ! 1) = Some (Val 120)
          \<and> endTime (st_segments st' ! 1) = hhmm 9 0)"
  using end_time_edit [where st = exampleEditor and index = 1 and sh = 7 and sm = 0
      and eh = 9 and em = 0 and t = "js_of ''06:30''"]
    exampleEditor_fixed exampleEditor_facts
  by (auto simp: specDuration_def)

lemma addMinutes_0700_1: "addMinutes (js_of ''07:00'') 1 = js_of ''07:01''"
  by (simp add: time_eval)

text \<open>
  Claim C8 as stated fails: in the example editor the leg starts at 07:00; setting its end
  time to 07:00 stores the duration 1, and the recalculated end time is 07:01.
\<close>

theorem end_time_edit_counterexample:
  "startTime (st_segments exampleEditor ! 1) = js_of ''07:00''
   \<and> \<not> isl (handleEndTimeChange exampleEditor 1 (js_of ''07:00''))
   \<and> customDurationMins
         (st_segments (projr (handleEndTimeChange exampleEditor 1 (js_of ''07:00''))) ! 1) =
       Some (Val 1)
   \<and> endTime (st_segments (projr (handleEndTimeChange exampleEditor 1 (js_of ''07:00''))) ! 1) =
       js_of ''07:01''
   \<and> js_of ''07:01'' \<noteq> js_of ''07:00''"
proof -
  have one: "real (impliedMinutes (60 * 7 + 0) (60 * 7 + 0)) = 1"
    by (simp add: impliedMinutes_def)
  have res: "handleEndTimeChange exampleEditor 1 (js_of ''07:00'') =
               Inr (exampleEditor\<lparr>st_segments :=
                      recalculateSegments
                        ((st_segments exampleEditor)[1 := (st_segments exampleEditor ! 1)
                           \<lparr>customDurationMins := Some (Val 1)\<rparr>])
                        (st_startTime exampleEditor)\<rparr>)"
    using handler_result [of 1 exampleEditor 7 0 7 0]
    by (simp only: one hhmm_literals exampleEditor_facts)
  have seg:
    "customDurationMins
       (recalculateSegments
          ((st_segments exampleEditor)[1 := (st_segments exampleEditor ! 1)
             \<lparr>customDurationMins := Some (Val 1)\<rparr>])
          (st_startTime exampleEditor) ! 1) = Some (Val 1)"
    "endTime
       (recalculateSegments
          ((st_segments exampleEditor)[1 := (st_segments exampleEditor ! 1)
             \<lparr>customDurationMins := Some (Val 1)\<rparr>])
          (st_startTime exampleEditor) ! 1) = addMinutes (hhmm 7 0) 1"
    using edited_segment(1,4) [OF exampleEditor_fixed, of 1 1] exampleEditor_facts
    by simp_all
  have "js_of ''07:01'' \<noteq> js_of ''07:00''"
    by (simp add: js_of_def)
  with res seg exampleEditor_facts show ?thesis
    by (simp add: hhmm_literals addMinutes_0700_1)
qed

section \<open>Appending a row\<close>

lemma callback_labels:
  "seg_id (fst (recalc_callback g r seg i)) = seg_id seg"
  "name (fst (recalc_callback g r seg i)) = name seg"
  "description (fst (recalc_callback g r seg i)) = description seg"
  by (simp_all add: recalc_callback_def Let_def case_prod_beta)

lemma recalculate_last:
  "last (recalculateSegments (xs @ [x]) g) =
     fst (recalc_callback g (running_after g (running_init g) 0 xs) x (length xs))"
  by (simp add: recalculateSegments_def recalc_map_snoc running_init_def)

lemma recalculate_last_name:
  "segs \<noteq> [] \<Longrightarrow> name (last (recalculateSegments segs g)) = name (last segs)"
proof (induction segs rule: rev_induct)
  case Nil
  then show ?case by simp
next
  case (snoc x xs)
  show ?case by (simp add: recalculate_last callback_labels)
qed

lemma fromCharCode_length: "length (fromCharCode x) = 1"
  by (cases x) (simp_all add: fromCharCode_def)

lemma nextChar_code_unit:
  "fromCharCode (js_add (charCodeAt0 (c # cs)) (Val 1)) = [c + 1]"
proof -
  have nonneg: "\<not> real (unat c) + 1 < 0" by linarith
  have fl: "\<lfloor>real (unat c) + 1\<rfloor> = int (unat c) + 1" by linarith
  have "fromCharCode (js_add (charCodeAt0 (c # cs)) (Val 1)) =
          [word_of_int (int (unat c) + 1)]"
    by (simp only: charCodeAt0_def fromCharCode_def list.case js_add.simps jsnum.case nonneg
        if_False fl)
  then show ?thesis by simp
qed

lemma addRow_result:
  assumes "st_segments st \<noteq> []" and "name (last (st_segments st)) = c # cs"
  shows "addRow newId st =
           Inr (st\<lparr>st_segments :=
                  recalculateSegments
                    (st_segments st
                       @ [createEmptySegment newId [c + 1] ((c # cs) @ js_of '' To '' @ [c + 1])])
                    (st_startTime st)\<rparr>)"
  using assms
  by (cases "st_segments st")
     (simp_all add: addRow_def Let_def nextChar_code_unit del: last.simps)

text \<open>
  Claim C9 at a plan whose last row is named Z: \<open>addRow\<close> succeeds, and the new row has
  zero distance and elevation and \<open>targetEPH = 10\<close>, but its name is the code unit after
  Z, an opening square bracket, and not the placeholder X. \<open>String.fromCharCode\<close> always
  gives a string of length 1 (\<open>fromCharCode_length\<close>), so the test \<open>nextChar.length > 1\<close>
  that selects the placeholder never holds.
\<close>

theorem addRow_after_Z:
  "name (last (st_segments exampleEditorZ)) = js_of ''Z''
   \<and> \<not> isl (addRow (js_of ''s2'') exampleEditorZ)
   \<and> name (last (st_segments (projr (addRow (js_of ''s2'') exampleEditorZ)))) = js_of ''[''
   \<and> description (last (st_segments (projr (addRow (js_of ''s2'') exampleEditorZ)))) =
       js_of ''Z To [''
   \<and> js_of ''['' \<noteq> js_of ''X''
   \<and> splitDistKm (last (st_segments (projr (addRow (js_of ''s2'') exampleEditorZ)))) = 0
   \<and> splitElevM (last (st_segments (projr (addRow (js_of ''s2'') exampleEditorZ)))) = 0
   \<and> targetEPH (last (st_segments (projr (addRow (js_of ''s2'') exampleEditorZ)))) = 10"
proof -
  have n: "name (last (st_segments exampleEditorZ)) = [90]"
    by (simp add: exampleEditorZ_def recalculate_last_name js_of_def)
  have ne: "st_segments exampleEditorZ \<noteq> []"
    using length_recalculate [of "[exampleStart, exampleA\<lparr>name := js_of ''Z''\<rparr>]" "js_of ''07:00''"]
    by (auto simp: exampleEditorZ_def)
  note res = addRow_result [OF ne n, of "js_of ''s2''"]
  show ?thesis
    unfolding res
    by (simp add: n recalculate_last callback_labels callback_input_fields createEmptySegment_def
        js_of_def)
qed

section \<open>The start row in the totals\<close>

lemma foldl_ep_sum:
  "foldl (\<lambda>acc s. acc + ep s) a (xs :: Segment list) = a + sum_list (map ep xs)"
  by (induction xs arbitrary: a) simp_all

lemma map_ep_recalc_map:
  "map ep (recalc_map g r i segs) =
     map (\<lambda>s. calculateEP (splitDistKm s) (splitElevM s)) segs"
proof (induction segs arbitrary: r i)
  case Nil
  show ?case by simp
next
  case (Cons seg rest)
  obtain seg' r' where c: "recalc_callback g r seg i = (seg', r')"
    by (cases "recalc_callback g r seg i")
  then have "ep seg' = calculateEP (splitDistKm seg) (splitElevM seg)"
    using callback_durations(3) [of g r seg i] by simp
  with c Cons.IH [of r' "Suc i"] show ?case by simp
qed

lemma recalculate_last_nth:
  "segs \<noteq> [] \<Longrightarrow>
   last (recalculateSegments segs g) = recalculateSegments segs g ! (length segs - 1)"
proof -
  assume "segs \<noteq> []"
  then have "recalculateSegments segs g \<noteq> []"
    using length_recalculate [of segs g] by auto
  then show ?thesis
    by (simp add: last_conv_nth length_recalculate)
qed

lemma handleSave_result:
  assumes "st_segments st \<noteq> []"
  shows "handleSave initialSession newId now st =
           Inr \<lparr>session_id = or_else (map_option session_id initialSession) newId,
                session_name = st_name st,
                date = or_else (map_option date initialSession) now,
                globalStartTime = st_startTime st,
                session_segments = st_segments st,
                totalDistance = totalDistKm (last (st_segments st)),
                totalElevation = accuElevM (last (st_segments st)),
                totalEP = sum_list (map ep (st_segments st)),
                totalDurationHours = accuTimeHours (last (st_segments st))\<rparr>"
  using assms
  by (cases "st_segments st") (simp_all add: handleSave_def Let_def foldl_ep_sum del: last.simps)

text \<open>
  Claim C10. The first row keeps its inputs: its \<open>ep\<close> is its \<open>splitDistKm\<close> plus a
  hundredth of its \<open>splitElevM\<close>, these two are part of \<open>totalDistKm\<close> and \<open>accuElevM\<close> at
  every position, and part of \<open>totalEP\<close>, \<open>totalDistance\<close> and \<open>totalElevation\<close> of the
  session that \<open>handleSave\<close> builds from a recalculated plan. What is zero in the first row
  is its duration, in hours and in minutes, its accumulated time and \<open>accuEPH\<close>.
\<close>

theorem start_row_counted:
  assumes "i < length (s0 # rest)"
  shows "ep (recalculateSegments (s0 # rest) g ! 0) = splitDistKm s0 + splitElevM s0 / 100
         \<and> totalDistKm (recalculateSegments (s0 # rest) g ! i) =
             splitDistKm s0 + sum_list (map splitDistKm (take i rest))
         \<and> accuElevM (recalculateSegments (s0 # rest) g ! i) =
             splitElevM s0 + sum_list (map splitElevM (take i rest))
         \<and> (\<exists>session.
               handleSave initialSession newId now
                 \<lparr>st_name = n, st_startTime = g,
                  st_segments = recalculateSegments (s0 # rest) g\<rparr> = Inr session
               \<and> totalEP session =
                   (splitDistKm s0 + splitElevM s0 / 100)
                     + sum_list (map (\<lambda>s. splitDistKm s + splitElevM s / 100) rest)
               \<and> totalDistance session = splitDistKm s0 + sum_list (map splitDistKm rest)
               \<and> totalElevation session = splitElevM s0 + sum_list (map splitElevM rest))
         \<and> targetTimeHours (recalculateSegments (s0 # rest) g ! 0) = 0
         \<and> targetTimeMins (recalculateSegments (s0 # rest) g ! 0) = 0
         \<and> accuTimeHours (recalculateSegments (s0 # rest) g ! 0) = 0
         \<and> accuEPH (recalculateSegments (s0 # rest) g ! 0) = 0"
proof -
  let ?segs = "s0 # rest"
  let ?out = "recalculateSegments ?segs g"
  let ?st = "\<lparr>st_name = n, st_startTime = g, st_segments = ?out\<rparr>"
  have ne: "?out \<noteq> []"
    using length_recalculate [of ?segs g] by auto
  have first: "?out ! 0 = fst (recalc_callback g (running_init g) s0 0)"
    using recalculate_nth [of 0 ?segs g] by simp
  have ep0: "ep (?out ! 0) = splitDistKm s0 + splitElevM s0 / 100"
    by (simp add: first callback_durations calculateEP_def)
  have zero: "targetTimeHours (?out ! 0) = 0" "targetTimeMins (?out ! 0) = 0"
             "accuTimeHours (?out ! 0) = 0" "accuEPH (?out ! 0) = 0"
    by (simp_all add: first callback_durations callback_totals callback_accuEPH
        legDuration_def running_init_def)
  have tot: "totalDistKm (?out ! i) = splitDistKm s0 + sum_list (map splitDistKm (take i rest))"
            "accuElevM (?out ! i) = splitElevM s0 + sum_list (map splitElevM (take i rest))"
    using totals_nth(1,2) [OF assms, of g] by simp_all
  have lastt: "totalDistKm (last ?out) = splitDistKm s0 + sum_list (map splitDistKm rest)"
              "accuElevM (last ?out) = splitElevM s0 + sum_list (map splitElevM rest)"
    using totals_nth(1,2) [of "length rest" ?segs g] recalculate_last_nth [of ?segs g]
    by simp_all
  have eps: "sum_list (map ep ?out) =
               (splitDistKm s0 + splitElevM s0 / 100)
                 + sum_list (map (\<lambda>s. splitDistKm s + splitElevM s / 100) rest)"
    unfolding recalculateSegments_def map_ep_recalc_map
    by (simp add: calculateEP_def)
  have save: "handleSave initialSession newId now ?st =
           Inr \<lparr>session_id = or_else (map_option session_id initialSession) newId,
                session_name = st_name ?st,
                date = or_else (map_option date initialSession) now,
                globalStartTime = st_startTime ?st,
                session_segments = st_segments ?st,
                totalDistance = totalDistKm (last (st_segments ?st)),
                totalElevation = accuElevM (last (st_segments ?st)),
                totalEP = sum_list (map ep (st_segments ?st)),
                totalDurationHours = accuTimeHours (last (st_segments ?st))\<rparr>"
    by (rule handleSave_result) (simp add: ne)
  have "\<exists>session. handleSave initialSession newId now ?st = Inr session
               \<and> totalEP session =
                   (splitDistKm s0 + splitElevM s0 / 100)
                     + sum_list (map (\<lambda>s. splitDistKm s + splitElevM s / 100) rest)
               \<and> totalDistance session = splitDistKm s0 + sum_list (map splitDistKm rest)
               \<and> totalElevation session = splitElevM s0 + sum_list (map splitElevM rest)"
    unfolding save using eps lastt by simp
  with ep0 zero tot show ?thesis by simp
qed

theorem start_row_counted_witness:
  "(1::nat) < length [exampleLoadedStart, exampleA]
   \<and> ep (recalculateSegments [exampleLoadedStart, exampleA] (js_of ''07:00'') ! 0) = 7
   \<and> totalDistKm (recalculateSegments [exampleLoadedStart, exampleA] (js_of ''07:00'') ! 1) = 5 + 66 / 5
   \<and> accuElevM (recalculateSegments [exampleLoadedStart, exampleA] (js_of ''07:00'') ! 1) = 200 + 1260
   \<and> (\<exists>session.
         handleSave None (js_of ''p1'') (js_of ''2026-01-01T00:00:00.000Z'')
           \<lparr>st_name = js_of ''New Morning Run'', st_startTime = js_of ''07:00'',
            st_segments = recalculateSegments [exampleLoadedStart, exampleA] (js_of ''07:00'')\<rparr>
           = Inr session
         \<and> totalEP session = 7 + 129 / 5
         \<and> totalDistance session = 5 + 66 / 5
         \<and> totalElevation session = 200 + 1260)
   \<and> targetTimeHours (recalculateSegments [exampleLoadedStart, exampleA] (js_of ''07:00'') ! 0) = 0
   \<and> accuEPH (recalculateSegments [exampleLoadedStart, exampleA] (js_of ''07:00'') ! 0) = 0"
  using start_row_counted [where i = 1 and ?s0.0 = exampleLoadedStart and rest = "[exampleA]"
      and g = "js_of ''07:00''" and initialSession = None and newId = "js_of ''p1''"
      and now = "js_of ''2026-01-01T00:00:00.000Z''" and n = "js_of ''New Morning Run''"]
  by (simp add: exampleLoadedStart_def exampleStart_def exampleA_def createEmptySegment_def)

section \<open>The range of doubles\<close>

lemma huge_pos: "0 < huge"
  by (simp add: huge_def)

lemma huge_below_bound: "huge < overflow_bound"
proof -
  have "(2::real) ^ 970 < 2 ^ 1023" by (rule power_strict_increasing) simp_all
  moreover have "(2::real) ^ 1024 = 2 ^ 1023 + 2 ^ 1023"
    using power_Suc [of "2::real" 1023] by simp
  ultimately show ?thesis by (simp add: overflow_bound_def huge_def)
qed

lemma bound_le_twice_huge: "overflow_bound \<le> huge + huge"
proof -
  have "(2::real) ^ 1024 = 2 ^ 1023 + 2 ^ 1023"
    using power_Suc [of "2::real" 1023] by simp
  moreover have "(0::real) < 2 ^ 970" by simp
  ultimately show ?thesis by (simp add: overflow_bound_def huge_def)
qed

lemma huge_large: "1000000000 \<le> huge"
proof -
  have "(2::real) ^ 30 \<le> 2 ^ 1023" by (rule power_increasing) simp_all
  then show ?thesis by (simp add: huge_def)
qed

lemma bound_large: "1000000000 < overflow_bound"
  using huge_large huge_below_bound by linarith

lemma in_range_small: "\<bar>x\<bar> \<le> 1000000000 \<Longrightarrow> in_range x"
  using bound_large by (simp add: in_range_def abs_le_iff)

lemma in_range_huge: "in_range huge"
  using huge_pos huge_below_bound by (simp add: in_range_def)

lemma rnd_in_range: "in_range x \<Longrightarrow> rnd x = Fin x"
  by (simp add: in_range_def rnd_def)

lemma rnd_overflow: "overflow_bound \<le> x \<Longrightarrow> rnd x = PInf"
  by (simp add: rnd_def)

lemma rnd_not_NaN: "rnd x \<noteq> DNaN"
  by (simp add: rnd_def)

lemma rnd_Fin: "rnd x = Fin y \<Longrightarrow> y = x \<and> in_range x"
  using bound_large by (auto simp: rnd_def in_range_def split: if_splits)

lemma normal_rnd: "normal (rnd x)"
  using bound_large by (auto simp: normal_def rnd_def in_range_def)

lemma normal_add: "normal (d_add x y)"
  by (cases x; cases y) (simp_all add: normal_rnd, simp_all add: normal_def)

lemma d_div_one: "normal x \<Longrightarrow> d_div x (Fin 1) = x"
  by (cases x) (simp_all add: normal_def rnd_in_range)

lemma in_range_hundredth: "in_range b \<Longrightarrow> in_range (b / 100)"
  by (simp add: in_range_def)

lemma Fin_add_not_NaN: "y \<noteq> DNaN \<Longrightarrow> d_add (Fin a) y \<noteq> DNaN"
  by (cases y) (simp_all add: rnd_not_NaN)

lemma div_pos_not_NaN: "x \<noteq> DNaN \<Longrightarrow> 0 < s \<Longrightarrow> d_div x (Fin s) \<noteq> DNaN"
  by (cases x) (simp_all add: rnd_not_NaN)

lemma Fin_hundredth_not_NaN: "d_div (Fin b) (Fin 100) \<noteq> DNaN"
  by (simp add: rnd_not_NaN)

section \<open>The engine over doubles, position by position\<close>

lemma length_recalc_map_d: "length (recalc_map_d g r i segs) = length segs"
  by (induction segs arbitrary: r i) (auto split: prod.splits)

lemma length_recalculate_d: "length (recalculateSegments_d segs g) = length segs"
  by (simp add: recalculateSegments_d_def length_recalc_map_d)

lemma recalc_map_d_nth:
  "k < length segs \<Longrightarrow>
   recalc_map_d g r i segs ! k =
     fst (recalc_callback_d g (running_after_d g r i (take k segs)) (segs ! k) (i + k))"
proof (induction segs arbitrary: r i k)
  case Nil
  then show ?case by simp
next
  case (Cons seg rest)
  show ?case
  proof (cases k)
    case 0
    then show ?thesis by (simp split: prod.splits)
  next
    case (Suc j)
    with Cons.prems have "j < length rest" by simp
    from Cons.IH [OF this] Suc show ?thesis by (simp split: prod.splits)
  qed
qed

lemma recalculate_d_nth:
  "k < length segs \<Longrightarrow>
   recalculateSegments_d segs g ! k =
     fst (recalc_callback_d g (running_after_d g (running_init_d g) 0 (take k segs))
            (segs ! k) k)"
  by (simp add: recalculateSegments_d_def running_init_d_def recalc_map_d_nth)

lemma callback_d_input_fields:
  "splitDistKm (fst (recalc_callback_d g r seg i)) = splitDistKm seg"
  "splitElevM (fst (recalc_callback_d g r seg i)) = splitElevM seg"
  "targetEPH (fst (recalc_callback_d g r seg i)) = targetEPH seg"
  "customDurationMins (fst (recalc_callback_d g r seg i)) = customDurationMins seg"
  by (simp_all add: recalc_callback_d_def Let_def case_prod_beta)

lemma callback_d_durations:
  "targetTimeHours (fst (recalc_callback_d g r seg i)) =
     fst (legDuration_d i seg (calculateEP_d (splitDistKm seg) (splitElevM seg)))"
  "targetTimeMins (fst (recalc_callback_d g r seg i)) =
     snd (legDuration_d i seg (calculateEP_d (splitDistKm seg) (splitElevM seg)))"
  "ep (fst (recalc_callback_d g r seg i)) = calculateEP_d (splitDistKm seg) (splitElevM seg)"
  by (simp_all add: recalc_callback_d_def Let_def case_prod_beta)

lemma callback_d_times:
  "startTime (fst (recalc_callback_d g r seg i)) = (if i = 0 then g else currentClockTime r)"
  "endTime (fst (recalc_callback_d g r seg i)) =
     addMinutes_d (startTime (fst (recalc_callback_d g r seg i)))
       (targetTimeMins (fst (recalc_callback_d g r seg i)))"
  by (simp_all add: recalc_callback_d_def Let_def case_prod_beta)

lemma callback_d_running:
  "runningDist (snd (recalc_callback_d g r seg i)) = d_add (runningDist r) (splitDistKm seg)"
  "runningElev (snd (recalc_callback_d g r seg i)) = d_add (runningElev r) (splitElevM seg)"
  "runningTimeHours (snd (recalc_callback_d g r seg i)) =
     d_add (runningTimeHours r) (targetTimeHours (fst (recalc_callback_d g r seg i)))"
  by (simp_all add: recalc_callback_d_def Let_def case_prod_beta)

lemma callback_d_totals:
  "totalDistKm (fst (recalc_callback_d g r seg i)) = d_add (runningDist r) (splitDistKm seg)"
  "accuElevM (fst (recalc_callback_d g r seg i)) = d_add (runningElev r) (splitElevM seg)"
  "accuTimeHours (fst (recalc_callback_d g r seg i)) =
     d_add (runningTimeHours r) (targetTimeHours (fst (recalc_callback_d g r seg i)))"
  by (simp_all add: recalc_callback_d_def Let_def case_prod_beta)

lemma callback_d_accuEPH:
  "accuEPH (fst (recalc_callback_d g r seg i)) =
     (if i = 0 then Fin 0
      else if d_gt (accuTimeHours (fst (recalc_callback_d g r seg i))) (Fin 0)
      then d_div (d_add (totalDistKm (fst (recalc_callback_d g r seg i)))
                    (d_div (accuElevM (fst (recalc_callback_d g r seg i))) (Fin 100)))
             (accuTimeHours (fst (recalc_callback_d g r seg i)))
      else Fin 0)"
  by (simp add: recalc_callback_d_def Let_def case_prod_beta)

lemma running_after_d_dist:
  "runningDist (running_after_d g r i xs) = foldl d_add (runningDist r) (map splitDistKm xs)"
  by (induction xs arbitrary: r i) (simp_all add: callback_d_running)

lemma running_after_d_elev:
  "runningElev (running_after_d g r i xs) = foldl d_add (runningElev r) (map splitElevM xs)"
  by (induction xs arbitrary: r i) (simp_all add: callback_d_running)

lemma running_after_d_time:
  "runningTimeHours (running_after_d g r i xs) =
     foldl d_add (runningTimeHours r) (map targetTimeHours (recalc_map_d g r i xs))"
  by (induction xs arbitrary: r i) (simp_all add: callback_d_running split: prod.splits)

lemma recalc_map_d_take:
  "take k (recalc_map_d g r i xs) = recalc_map_d g r i (take k xs)"
proof (induction xs arbitrary: r i k)
  case Nil
  show ?case by simp
next
  case (Cons x xs)
  show ?case by (cases k) (simp_all add: Cons.IH split: prod.splits)
qed

lemma recalc_map_d_snoc:
  "recalc_map_d g r i (xs @ [x]) =
     recalc_map_d g r i xs
       @ [fst (recalc_callback_d g (running_after_d g r i xs) x (i + length xs))]"
  by (induction xs arbitrary: r i) (simp_all split: prod.splits)

lemma totals_d_nth:
  assumes "k < length segs"
  shows "totalDistKm (recalculateSegments_d segs g ! k) =
           foldl d_add (Fin 0) (map splitDistKm (take (Suc k) segs))"
    and "accuElevM (recalculateSegments_d segs g ! k) =
           foldl d_add (Fin 0) (map splitElevM (take (Suc k) segs))"
    and "accuTimeHours (recalculateSegments_d segs g ! k) =
           foldl d_add (Fin 0) (map targetTimeHours (take (Suc k) (recalculateSegments_d segs g)))"
proof -
  have t: "take (Suc k) segs = take k segs @ [segs ! k]"
    using assms by (simp add: take_Suc_conv_app_nth)
  show "totalDistKm (recalculateSegments_d segs g ! k) =
          foldl d_add (Fin 0) (map splitDistKm (take (Suc k) segs))"
    using assms
    by (simp add: recalculate_d_nth callback_d_totals running_after_d_dist t running_init_d_def)
  show "accuElevM (recalculateSegments_d segs g ! k) =
          foldl d_add (Fin 0) (map splitElevM (take (Suc k) segs))"
    using assms
    by (simp add: recalculate_d_nth callback_d_totals running_after_d_elev t running_init_d_def)
  have "take (Suc k) (recalculateSegments_d segs g) =
          recalc_map_d g (running_init_d g) 0 (take k segs) @ [recalculateSegments_d segs g ! k]"
    using assms
    by (simp add: recalculateSegments_d_def recalc_map_d_take t recalc_map_d_snoc
        recalc_map_d_nth running_init_d_def)
  then show "accuTimeHours (recalculateSegments_d segs g ! k) =
           foldl d_add (Fin 0) (map targetTimeHours (take (Suc k) (recalculateSegments_d segs g)))"
    using assms
    by (simp add: recalculate_d_nth callback_d_totals running_after_d_time running_init_d_def)
qed

lemma normal_totals:
  assumes "k < length segs"
  shows "normal (totalDistKm (recalculateSegments_d segs g ! k))"
    and "normal (accuElevM (recalculateSegments_d segs g ! k))"
    and "normal (accuTimeHours (recalculateSegments_d segs g ! k))"
  using assms by (simp_all add: recalculate_d_nth callback_d_totals normal_add)

section \<open>Fixed-Intensity mode\<close>

lemma fixed_intensity_hours:
  assumes "0 < i" and "i < length segs" and "customDurationMins (segs ! i) = None"
  shows "targetTimeHours (recalculateSegments_d segs g ! i) =
           d_div (ep (recalculateSegments_d segs g ! i)) (safeEPH_d (segs ! i))"
    and "targetTimeMins (recalculateSegments_d segs g ! i) =
           d_mul (targetTimeHours (recalculateSegments_d segs g ! i)) (Fin 60)"
    and "ep (recalculateSegments_d segs g ! i) =
           d_add (splitDistKm (segs ! i)) (d_div (splitElevM (segs ! i)) (Fin 100))"
    and "targetEPH (recalculateSegments_d segs g ! i) = targetEPH (segs ! i)"
  using assms
  by (simp_all add: recalculate_d_nth callback_d_durations callback_d_input_fields
      legDuration_d_def fixedIntensity_d_def calculateEP_d_def Let_def)

text \<open>
  Claim C2, as amended. At a position after the first, a segment without
  \<open>customDurationMins\<close> gets \<open>targetTimeHours = ep / targetEPH\<close> when \<open>targetEPH\<close> is
  positive and \<open>targetTimeHours = ep\<close> when \<open>targetEPH\<close> is 0; \<open>targetTimeMins\<close> is 60 times
  \<open>targetTimeHours\<close>, and \<open>targetEPH\<close> is returned as it was given. When the distance, the
  elevation and \<open>targetEPH\<close> are finite, \<open>targetTimeHours\<close> is not \<open>NaN\<close>; when moreover
  \<open>ep\<close> is within the range of doubles, \<open>targetTimeHours\<close> is the finite quotient if that
  is within the range, and plus infinity if the quotient reaches the overflow bound.
\<close>

theorem fixed_intensity_duration:
  assumes "0 < i" and "i < length segs" and "customDurationMins (segs ! i) = None"
  shows "(d_gt (targetEPH (segs ! i)) (Fin 0) \<longrightarrow>
            targetTimeHours (recalculateSegments_d segs g ! i) =
              d_div (ep (recalculateSegments_d segs g ! i)) (targetEPH (segs ! i)))
         \<and> (targetEPH (segs ! i) = Fin 0 \<longrightarrow>
            targetTimeHours (recalculateSegments_d segs g ! i) =
              ep (recalculateSegments_d segs g ! i))
         \<and> targetTimeMins (recalculateSegments_d segs g ! i) =
             d_mul (targetTimeHours (recalculateSegments_d segs g ! i)) (Fin 60)
         \<and> targetEPH (recalculateSegments_d segs g ! i) = targetEPH (segs ! i)
         \<and> (\<forall>a b e. splitDistKm (segs ! i) = Fin a \<and> splitElevM (segs ! i) = Fin b
                  \<and> targetEPH (segs ! i) = Fin e \<longrightarrow>
              targetTimeHours (recalculateSegments_d segs g ! i) \<noteq> DNaN
              \<and> (in_range (b / 100) \<and> in_range (a + b / 100) \<longrightarrow>
                   ep (recalculateSegments_d segs g ! i) = Fin (a + b / 100)
                   \<and> (in_range ((a + b / 100) / (if 0 < e then e else 1)) \<longrightarrow>
                        targetTimeHours (recalculateSegments_d segs g ! i) =
                          Fin ((a + b / 100) / (if 0 < e then e else 1)))
                   \<and> (overflow_bound \<le> (a + b / 100) / (if 0 < e then e else 1) \<longrightarrow>
                        targetTimeHours (recalculateSegments_d segs g ! i) = PInf)))"
proof (intro conjI allI impI)
  let ?out = "recalculateSegments_d segs g ! i"
  note h = fixed_intensity_hours [OF assms, of g]
  have ep_normal: "normal (ep ?out)"
    by (simp add: h(3) normal_add)
  show "targetTimeMins ?out = d_mul (targetTimeHours ?out) (Fin 60)" by (rule h(2))
  show "targetEPH ?out = targetEPH (segs ! i)" by (rule h(4))
  show "targetTimeHours ?out = d_div (ep ?out) (targetEPH (segs ! i))"
    if "d_gt (targetEPH (segs ! i)) (Fin 0)"
    using that by (simp add: h(1) safeEPH_d_def)
  show "targetTimeHours ?out = ep ?out" if "targetEPH (segs ! i) = Fin 0"
    using that ep_normal by (simp add: h(1) safeEPH_d_def d_div_one)
  fix a b e
  assume fin: "splitDistKm (segs ! i) = Fin a \<and> splitElevM (segs ! i) = Fin b
                 \<and> targetEPH (segs ! i) = Fin e"
  let ?s = "if 0 < e then e else 1"
  have safe: "safeEPH_d (segs ! i) = Fin ?s" "0 < ?s"
    using fin by (simp_all add: safeEPH_d_def)
  have "ep ?out \<noteq> DNaN"
    using fin by (simp add: h(3) Fin_add_not_NaN rnd_not_NaN)
  then show "targetTimeHours ?out \<noteq> DNaN"
    unfolding h(1) safe(1) using safe(2) by (rule div_pos_not_NaN)
  {
    assume r: "in_range (b / 100) \<and> in_range (a + b / 100)"
    then show e: "ep ?out = Fin (a + b / 100)"
      using fin by (simp add: h(3) rnd_in_range)
    show "targetTimeHours ?out = Fin ((a + b / 100) / ?s)"
      if "in_range ((a + b / 100) / ?s)"
      using that safe(2) unfolding h(1) safe(1) e by (simp add: rnd_in_range)
    show "targetTimeHours ?out = PInf"
      if "overflow_bound \<le> (a + b / 100) / ?s"
      using that safe(2) unfolding h(1) safe(1) e by (simp add: rnd_overflow)
  }
qed

section \<open>Evaluation of the examples over doubles\<close>

lemma rnd_small: "\<bar>x\<bar> \<le> 1000000000 \<Longrightarrow> rnd x = Fin x"
  by (simp add: rnd_in_range in_range_small)

lemma rnd_huge: "rnd huge = Fin huge"
  by (simp add: rnd_in_range in_range_huge)

lemma rnd_huge_multiple: "2 \<le> k \<Longrightarrow> rnd (huge * k) = PInf"
proof (rule rnd_overflow)
  assume "2 \<le> k"
  then have "huge * 2 \<le> huge * k"
    using huge_pos by (intro mult_left_mono) simp_all
  with bound_le_twice_huge show "overflow_bound \<le> huge * k" by simp
qed

lemma rnd_twice_huge: "rnd (huge + huge) = PInf"
  by (rule rnd_overflow) (rule bound_le_twice_huge)

lemma formatTime_NaN: "formatTime NaN = js_of ''NaN:NaN''"
  by (simp add: formatTime_def)

lemma addMinutes_d_PInf: "addMinutes_d t PInf = js_of ''NaN:NaN''"
  by (cases "parseTime_d t") (simp_all add: addMinutes_d_def formatTime_d_def formatTime_NaN)

lemma example_d_fields:
  "customDurationMins exampleA_d = None" "splitDistKm exampleA_d = Fin (66 / 5)"
  "splitElevM exampleA_d = Fin 1260" "targetEPH exampleA_d = Fin 10"
  "customDurationMins exampleSlow_d = None" "splitDistKm exampleSlow_d = Fin huge"
  "splitElevM exampleSlow_d = Fin 0" "targetEPH exampleSlow_d = Fin (1 / 4)"
  "customDurationMins exampleLong_d = None" "splitDistKm exampleLong_d = Fin huge"
  "splitElevM exampleLong_d = Fin 0" "targetEPH exampleLong_d = Fin 1"
  "splitDistKm exampleStart_d = Fin 0" "splitElevM exampleStart_d = Fin 0"
  "targetEPH exampleStart_d = Fin 0"
  by (simp_all add: exampleA_d_def exampleSlow_d_def exampleLong_d_def exampleStart_d_def
      createEmptySegment_d_def)

theorem fixed_intensity_duration_witness:
  "(0::nat) < 1 \<and> 1 < length [exampleStart_d, exampleA_d]
   \<and> customDurationMins ([exampleStart_d, exampleA_d] ! 1) = None
   \<and> splitDistKm ([exampleStart_d, exampleA_d] ! 1) = Fin (66 / 5)
   \<and> splitElevM ([exampleStart_d, exampleA_d] ! 1) = Fin 1260
   \<and> targetEPH ([exampleStart_d, exampleA_d] ! 1) = Fin 10
   \<and> in_range (1260 / 100) \<and> in_range (66 / 5 + 1260 / 100)
   \<and> in_range ((66 / 5 + 1260 / 100) / 10)
   \<and> ep (recalculateSegments_d [exampleStart_d, exampleA_d] (js_of ''07:00'') ! 1) = Fin (129 / 5)
   \<and> targetTimeHours (recalculateSegments_d [exampleStart_d, exampleA_d] (js_of ''07:00'') ! 1) =
       Fin (129 / 50)
   \<and> targetTimeMins (recalculateSegments_d [exampleStart_d, exampleA_d] (js_of ''07:00'') ! 1) =
       Fin (774 / 5)
   \<and> targetEPH (recalculateSegments_d [exampleStart_d, exampleA_d] (js_of ''07:00'') ! 1) = Fin 10
   \<and> targetEPH ([exampleStart_d, exampleA_d\<lparr>targetEPH := Fin 0\<rparr>] ! 1) = Fin 0
   \<and> targetTimeHours
         (recalculateSegments_d [exampleStart_d, exampleA_d\<lparr>targetEPH := Fin 0\<rparr>] (js_of ''07:00'') ! 1) =
       ep (recalculateSegments_d [exampleStart_d, exampleA_d\<lparr>targetEPH := Fin 0\<rparr>] (js_of ''07:00'') ! 1)"
proof -
  have p: "(0::nat) < 1" "1 < length [exampleStart_d, exampleA_d]"
    "customDurationMins ([exampleStart_d, exampleA_d] ! 1) = None"
    by (simp_all add: example_d_fields)
  have q: "1 < length [exampleStart_d, exampleA_d\<lparr>targetEPH := Fin 0\<rparr>]"
    "customDurationMins ([exampleStart_d, exampleA_d\<lparr>targetEPH := Fin 0\<rparr>] ! 1) = None"
    by (simp_all add: example_d_fields)
  have f: "splitDistKm ([exampleStart_d, exampleA_d] ! 1) = Fin (66 / 5)
           \<and> splitElevM ([exampleStart_d, exampleA_d] ! 1) = Fin 1260
           \<and> targetEPH ([exampleStart_d, exampleA_d] ! 1) = Fin 10"
    by (simp add: example_d_fields)
  have r: "in_range (1260 / 100) \<and> in_range (66 / 5 + 1260 / 100)"
          "in_range ((66 / 5 + 1260 / 100) / (if (0::real) < 10 then 10 else 1))"
    by (simp_all add: in_range_small)
  note t = fixed_intensity_duration [OF p, of "js_of ''07:00''"]
  note z = fixed_intensity_duration [OF p(1) q, of "js_of ''07:00''"]
  note u = t [THEN conjunct2, THEN conjunct2, THEN conjunct2, THEN conjunct2, rule_format,
      OF f, THEN conjunct2, rule_format, OF r(1)]
  have "ep (recalculateSegments_d [exampleStart_d, exampleA_d] (js_of ''07:00'') ! 1) =
          Fin (66 / 5 + 1260 / 100)"
    by (rule u [THEN conjunct1])
  moreover have "targetTimeHours (recalculateSegments_d [exampleStart_d, exampleA_d] (js_of ''07:00'') ! 1) =
          Fin ((66 / 5 + 1260 / 100) / (if (0::real) < 10 then 10 else 1))"
    by (rule u [THEN conjunct2, THEN conjunct1, rule_format, OF r(2)])
  moreover have "targetTimeHours
         (recalculateSegments_d [exampleStart_d, exampleA_d\<lparr>targetEPH := Fin 0\<rparr>] (js_of ''07:00'') ! 1) =
       ep (recalculateSegments_d [exampleStart_d, exampleA_d\<lparr>targetEPH := Fin 0\<rparr>] (js_of ''07:00'') ! 1)"
    by (rule z [THEN conjunct2, THEN conjunct1, rule_format]) simp
  ultimately show ?thesis
    using t [THEN conjunct2, THEN conjunct2] p f r
    by (simp add: rnd_small)
qed

text \<open>
  Claim C2 as stated fails: a leg of \<open>2 ^ 1023\<close> km without elevation at a quarter of an
  effort point per hour has finite inputs, and its \<open>targetTimeHours\<close> is plus infinity (the
  quotient is \<open>2 ^ 1025\<close>); so is \<open>targetTimeMins\<close>, and the end time is \<open>NaN:NaN\<close>.
\<close>

theorem fixed_intensity_duration_counterexample:
  "customDurationMins exampleSlow_d = None
   \<and> splitDistKm exampleSlow_d = Fin huge \<and> in_range huge
   \<and> splitElevM exampleSlow_d = Fin 0
   \<and> targetEPH exampleSlow_d = Fin (1 / 4)
   \<and> targetTimeHours
         (recalculateSegments_d [exampleStart_d, exampleSlow_d] (js_of ''07:00'') ! 1) = PInf
   \<and> targetTimeMins
         (recalculateSegments_d [exampleStart_d, exampleSlow_d] (js_of ''07:00'') ! 1) = PInf
   \<and> endTime
         (recalculateSegments_d [exampleStart_d, exampleSlow_d] (js_of ''07:00'') ! 1) =
       js_of ''NaN:NaN''"
proof -
  let ?out = "recalculateSegments_d [exampleStart_d, exampleSlow_d] (js_of ''07:00'') ! 1"
  note h = fixed_intensity_hours [of 1 "[exampleStart_d, exampleSlow_d]" "js_of ''07:00''"]
  have e: "ep ?out = Fin huge"
    using h(3) by (simp add: example_d_fields rnd_small rnd_huge)
  have s: "safeEPH_d exampleSlow_d = Fin (1 / 4)"
    by (simp add: safeEPH_d_def example_d_fields)
  have hours: "targetTimeHours ?out = PInf"
    using h(1) e by (simp add: example_d_fields s rnd_huge_multiple)
  have mins: "targetTimeMins ?out = PInf"
    using h(2) hours by (simp add: example_d_fields)
  have "endTime ?out =
          addMinutes_d (startTime ?out) (targetTimeMins ?out)"
    by (simp add: recalculate_d_nth callback_d_times(2))
  then have "endTime ?out = js_of ''NaN:NaN''"
    by (simp only: mins addMinutes_d_PInf)
  with hours mins show ?thesis
    by (simp add: example_d_fields in_range_huge)
qed

section \<open>Cumulative intensity\<close>

lemma rnd_double_huge: "rnd (2 * huge) = PInf"
  using rnd_huge_multiple [of 2] by (simp add: mult.commute)

lemma running_after_d_append:
  "running_after_d g r i (xs @ ys) =
     running_after_d g (running_after_d g r i xs) (i + length xs) ys"
  by (induction xs arbitrary: r i) simp_all

lemma running_d_before:
  assumes "0 < k" and "k < length segs"
  shows "runningDist (running_after_d g (running_init_d g) 0 (take k segs)) =
           totalDistKm (recalculateSegments_d segs g ! (k - 1))"
    and "runningElev (running_after_d g (running_init_d g) 0 (take k segs)) =
           accuElevM (recalculateSegments_d segs g ! (k - 1))"
    and "runningTimeHours (running_after_d g (running_init_d g) 0 (take k segs)) =
           accuTimeHours (recalculateSegments_d segs g ! (k - 1))"
proof -
  from assms obtain j where j: "k = Suc j" by (cases k) auto
  with assms have jlt: "j < length segs" by simp
  have t: "take (Suc j) segs = take j segs @ [segs ! j]"
    using jlt by (simp add: take_Suc_conv_app_nth)
  show "runningDist (running_after_d g (running_init_d g) 0 (take k segs)) =
           totalDistKm (recalculateSegments_d segs g ! (k - 1))"
    using jlt j
    by (simp add: t running_after_d_append callback_d_running callback_d_totals recalculate_d_nth)
  show "runningElev (running_after_d g (running_init_d g) 0 (take k segs)) =
           accuElevM (recalculateSegments_d segs g ! (k - 1))"
    using jlt j
    by (simp add: t running_after_d_append callback_d_running callback_d_totals recalculate_d_nth)
  show "runningTimeHours (running_after_d g (running_init_d g) 0 (take k segs)) =
           accuTimeHours (recalculateSegments_d segs g ! (k - 1))"
    using jlt j
    by (simp add: t running_after_d_append callback_d_running callback_d_totals recalculate_d_nth)
qed

lemma accu_first:
  assumes "segs \<noteq> []"
  shows "totalDistKm (recalculateSegments_d segs g ! 0) = d_add (Fin 0) (splitDistKm (segs ! 0))"
    and "accuElevM (recalculateSegments_d segs g ! 0) = d_add (Fin 0) (splitElevM (segs ! 0))"
    and "accuTimeHours (recalculateSegments_d segs g ! 0) = Fin 0"
  using assms
  by (simp_all add: recalculate_d_nth callback_d_totals callback_d_durations legDuration_d_def
      running_init_d_def rnd_small)

lemma accu_step:
  assumes "0 < k" and "k < length segs"
  shows "totalDistKm (recalculateSegments_d segs g ! k) =
           d_add (totalDistKm (recalculateSegments_d segs g ! (k - 1))) (splitDistKm (segs ! k))"
    and "accuElevM (recalculateSegments_d segs g ! k) =
           d_add (accuElevM (recalculateSegments_d segs g ! (k - 1))) (splitElevM (segs ! k))"
    and "accuTimeHours (recalculateSegments_d segs g ! k) =
           d_add (accuTimeHours (recalculateSegments_d segs g ! (k - 1)))
             (targetTimeHours (recalculateSegments_d segs g ! k))"
  using assms(2) running_d_before [OF assms, of g]
  by (simp_all add: recalculate_d_nth callback_d_totals)

lemma accuEPH_d_nth:
  assumes "0 < i" and "i < length segs"
  shows "accuEPH (recalculateSegments_d segs g ! i) =
           (if d_gt (accuTimeHours (recalculateSegments_d segs g ! i)) (Fin 0)
            then d_div (d_add (totalDistKm (recalculateSegments_d segs g ! i))
                          (d_div (accuElevM (recalculateSegments_d segs g ! i)) (Fin 100)))
                   (accuTimeHours (recalculateSegments_d segs g ! i))
            else Fin 0)"
  using assms by (simp only: recalculate_d_nth) (subst callback_d_accuEPH, simp)

text \<open>
  Claim C6, as amended. At every position after the first, \<open>accuEPH\<close> is the accumulated
  distance plus a hundredth of the accumulated elevation, divided by the accumulated
  time, when that time is greater than 0, and 0 otherwise, in particular when the
  accumulated time is 0. The accumulated values are the sums, taken from left to right
  up to and including the position, of the distances and elevations given and of the
  durations computed. When the three accumulated values are finite, \<open>accuEPH\<close> is not
  \<open>NaN\<close>, and it is the finite quotient when the sum and the quotient are within the
  range of doubles.
\<close>

theorem cumulative_intensity:
  assumes "0 < i" and "i < length segs"
  shows "accuEPH (recalculateSegments_d segs g ! i) =
           (if d_gt (accuTimeHours (recalculateSegments_d segs g ! i)) (Fin 0)
            then d_div (d_add (totalDistKm (recalculateSegments_d segs g ! i))
                          (d_div (accuElevM (recalculateSegments_d segs g ! i)) (Fin 100)))
                   (accuTimeHours (recalculateSegments_d segs g ! i))
            else Fin 0)
         \<and> (accuTimeHours (recalculateSegments_d segs g ! i) = Fin 0 \<longrightarrow>
              accuEPH (recalculateSegments_d segs g ! i) = Fin 0)
         \<and> totalDistKm (recalculateSegments_d segs g ! i) =
             foldl d_add (Fin 0) (map splitDistKm (take (Suc i) segs))
         \<and> accuElevM (recalculateSegments_d segs g ! i) =
             foldl d_add (Fin 0) (map splitElevM (take (Suc i) segs))
         \<and> accuTimeHours (recalculateSegments_d segs g ! i) =
             foldl d_add (Fin 0)
               (map targetTimeHours (take (Suc i) (recalculateSegments_d segs g)))
         \<and> (\<forall>a b t. totalDistKm (recalculateSegments_d segs g ! i) = Fin a
                  \<and> accuElevM (recalculateSegments_d segs g ! i) = Fin b
                  \<and> accuTimeHours (recalculateSegments_d segs g ! i) = Fin t \<longrightarrow>
              accuEPH (recalculateSegments_d segs g ! i) \<noteq> DNaN
              \<and> (t \<le> 0 \<longrightarrow> accuEPH (recalculateSegments_d segs g ! i) = Fin 0)
              \<and> (0 < t \<and> in_range (a + b / 100) \<and> in_range ((a + b / 100) / t) \<longrightarrow>
                   accuEPH (recalculateSegments_d segs g ! i) = Fin ((a + b / 100) / t)))"
proof (intro conjI allI impI)
  let ?o = "recalculateSegments_d segs g ! i"
  note acc = accuEPH_d_nth [OF assms, of g]
  show "accuEPH ?o =
          (if d_gt (accuTimeHours ?o) (Fin 0)
           then d_div (d_add (totalDistKm ?o) (d_div (accuElevM ?o) (Fin 100))) (accuTimeHours ?o)
           else Fin 0)"
    by (rule acc)
  show "accuEPH ?o = Fin 0" if "accuTimeHours ?o = Fin 0"
    using that by (simp add: acc)
  show "totalDistKm ?o = foldl d_add (Fin 0) (map splitDistKm (take (Suc i) segs))"
    by (rule totals_d_nth(1) [OF assms(2)])
  show "accuElevM ?o = foldl d_add (Fin 0) (map splitElevM (take (Suc i) segs))"
    by (rule totals_d_nth(2) [OF assms(2)])
  show "accuTimeHours ?o =
          foldl d_add (Fin 0) (map targetTimeHours (take (Suc i) (recalculateSegments_d segs g)))"
    by (rule totals_d_nth(3) [OF assms(2)])
  fix a b t
  assume fin: "totalDistKm ?o = Fin a \<and> accuElevM ?o = Fin b \<and> accuTimeHours ?o = Fin t"
  have "normal (accuElevM ?o)" by (rule normal_totals(2) [OF assms(2)])
  with fin have "in_range b" by (simp add: normal_def)
  then have hundredth: "rnd (b / 100) = Fin (b / 100)"
    by (simp add: rnd_in_range in_range_hundredth)
  show zero: "accuEPH ?o = Fin 0" if "t \<le> 0"
    using that fin by (simp add: acc)
  show "accuEPH ?o \<noteq> DNaN"
  proof (cases "0 < t")
    case True
    have "d_add (Fin a) (Fin (b / 100)) \<noteq> DNaN"
      by (rule Fin_add_not_NaN) simp
    then have "d_div (d_add (Fin a) (Fin (b / 100))) (Fin t) \<noteq> DNaN"
      using True by (rule div_pos_not_NaN)
    with True fin show ?thesis
      by (simp add: acc hundredth)
  next
    case False
    then have "accuEPH ?o = Fin 0" using fin by (simp add: acc)
    then show ?thesis by simp
  qed
  show "accuEPH ?o = Fin ((a + b / 100) / t)"
    if "0 < t \<and> in_range (a + b / 100) \<and> in_range ((a + b / 100) / t)"
    using that fin by (simp add: acc hundredth rnd_in_range)
qed

theorem cumulative_intensity_witness:
  "(0::nat) < 1 \<and> 1 < length [exampleStart_d, exampleA_d]
   \<and> totalDistKm (recalculateSegments_d [exampleStart_d, exampleA_d] (js_of ''07:00'') ! 1) =
       Fin (66 / 5)
   \<and> accuElevM (recalculateSegments_d [exampleStart_d, exampleA_d] (js_of ''07:00'') ! 1) =
       Fin 1260
   \<and> accuTimeHours (recalculateSegments_d [exampleStart_d, exampleA_d] (js_of ''07:00'') ! 1) =
       Fin (129 / 50)
   \<and> (0::real) < 129 / 50 \<and> in_range (66 / 5 + 1260 / 100)
   \<and> in_range ((66 / 5 + 1260 / 100) / (129 / 50))
   \<and> accuEPH (recalculateSegments_d [exampleStart_d, exampleA_d] (js_of ''07:00'') ! 1) =
       Fin ((66 / 5 + 1260 / 100) / (129 / 50))
   \<and> accuEPH (recalculateSegments_d [exampleStart_d, exampleA_d] (js_of ''07:00'') ! 1) = Fin 10"
proof -
  let ?o = "recalculateSegments_d [exampleStart_d, exampleA_d] (js_of ''07:00'') ! 1"
  have p: "(0::nat) < 1" "1 < length [exampleStart_d, exampleA_d]" by simp_all
  note t = cumulative_intensity [OF p, of "js_of ''07:00''"]
  note h = fixed_intensity_hours [OF p, of "js_of ''07:00''"]
  have hours: "targetTimeHours ?o = Fin (129 / 50)"
    using h(1) h(3) by (simp add: example_d_fields safeEPH_d_def rnd_small)
  have d: "totalDistKm ?o = Fin (66 / 5)"
    using t [THEN conjunct2, THEN conjunct2, THEN conjunct1]
    by (simp add: example_d_fields rnd_small)
  have e: "accuElevM ?o = Fin 1260"
    using t [THEN conjunct2, THEN conjunct2, THEN conjunct2, THEN conjunct1]
    by (simp add: example_d_fields rnd_small)
  have tm: "accuTimeHours ?o = Fin (129 / 50)"
    using accu_step(3) [OF p, of "js_of ''07:00''"] accu_first(3) [of "[exampleStart_d, exampleA_d]" "js_of ''07:00''"] hours
    by (simp add: rnd_small)
  have r: "(0::real) < 129 / 50 \<and> in_range (66 / 5 + 1260 / 100)
           \<and> in_range ((66 / 5 + 1260 / 100) / (129 / 50))"
    by (simp add: in_range_small)
  have fin: "totalDistKm ?o = Fin (66 / 5) \<and> accuElevM ?o = Fin 1260
             \<and> accuTimeHours ?o = Fin (129 / 50)"
    using d e tm by simp
  have "accuEPH ?o = Fin ((66 / 5 + 1260 / 100) / (129 / 50))"
    by (rule t [THEN conjunct2, THEN conjunct2, THEN conjunct2, THEN conjunct2, THEN conjunct2,
          rule_format, OF fin, THEN conjunct2, THEN conjunct2, rule_format, OF r])
  with d e tm r p show ?thesis by simp
qed

text \<open>
  Claim C6 as stated fails: after the start row and two legs of \<open>2 ^ 1023\<close> km at 1 effort
  point per hour, all inputs finite, the accumulated distance and the accumulated time
  are both plus infinity, and \<open>accuEPH\<close> is their quotient, \<open>NaN\<close>.
\<close>

theorem cumulative_intensity_counterexample:
  "splitDistKm exampleLong_d = Fin huge \<and> in_range huge
   \<and> splitElevM exampleLong_d = Fin 0 \<and> targetEPH exampleLong_d = Fin 1
   \<and> customDurationMins exampleLong_d = None
   \<and> splitDistKm exampleStart_d = Fin 0 \<and> splitElevM exampleStart_d = Fin 0
   \<and> totalDistKm
         (recalculateSegments_d [exampleStart_d, exampleLong_d, exampleLong_d] (js_of ''07:00'') ! 2)
       = PInf
   \<and> accuTimeHours
         (recalculateSegments_d [exampleStart_d, exampleLong_d, exampleLong_d] (js_of ''07:00'') ! 2)
       = PInf
   \<and> accuEPH
         (recalculateSegments_d [exampleStart_d, exampleLong_d, exampleLong_d] (js_of ''07:00'') ! 2)
       = DNaN"
proof -
  let ?segs = "[exampleStart_d, exampleLong_d, exampleLong_d]"
  let ?out = "recalculateSegments_d ?segs (js_of ''07:00'')"
  have k1: "(0::nat) < 1" "1 < length ?segs" "customDurationMins (?segs ! 1) = None"
    and k2: "(0::nat) < 2" "2 < length ?segs" "customDurationMins (?segs ! 2) = None"
    by (simp_all add: example_d_fields)
  have h1: "targetTimeHours (?out ! 1) = Fin huge"
    using fixed_intensity_hours(1,3) [OF k1, of "js_of ''07:00''"]
    by (simp add: example_d_fields safeEPH_d_def rnd_small rnd_huge)
  have h2: "targetTimeHours (?out ! 2) = Fin huge"
    using fixed_intensity_hours(1,3) [OF k2, of "js_of ''07:00''"]
    by (simp add: example_d_fields safeEPH_d_def rnd_small rnd_huge)
  have first: "totalDistKm (?out ! 0) = Fin 0" "accuElevM (?out ! 0) = Fin 0"
    "accuTimeHours (?out ! 0) = Fin 0"
    using accu_first [of ?segs "js_of ''07:00''"]
    by (simp_all add: example_d_fields rnd_small)
  have second: "totalDistKm (?out ! 1) = Fin huge" "accuElevM (?out ! 1) = Fin 0"
    "accuTimeHours (?out ! 1) = Fin huge"
    using accu_step [OF k1(1,2), of "js_of ''07:00''"] first h1
    by (simp_all add: example_d_fields rnd_small rnd_huge)
  have dist: "totalDistKm (?out ! 2) = PInf" and elev: "accuElevM (?out ! 2) = Fin 0"
    and time: "accuTimeHours (?out ! 2) = PInf"
    using accu_step [OF k2(1,2), of "js_of ''07:00''"] second h2
    by (simp_all add: example_d_fields rnd_small rnd_double_huge)
  have "accuEPH (?out ! 2) = DNaN"
    using accuEPH_d_nth [of 2 ?segs "js_of ''07:00''"]
    by (simp add: dist elev time rnd_small)
  with dist time show ?thesis
    by (simp add: example_d_fields in_range_huge)
qed

end
